theory Spec2Isabelle
  imports Main "HOL-Library.Word"
begin

section \<open>The URMSensor library: an ultrasonic rangefinder driver\<close>

text \<open>
  The repository holds two revisions of the driver.
  \<^item> Revision 1: the class of \<^verbatim>\<open>URMSensor.h\<close> (second document, lines 175-488) with the
    methods of \<^verbatim>\<open>URMSensor.cpp\<close> lines 1-135. Attachment is read off the pin numbers,
    the pins are driven through \<^verbatim>\<open>digitalRead\<close>/\<^verbatim>\<open>digitalWrite\<close>, and pins 8, 11 and 12
    are toggled for an oscilloscope.
  \<^item> Revision 2: the class of the third header (with the \<^verbatim>\<open>_isAttached\<close> flag and the
    port-register accessors) with the methods of \<^verbatim>\<open>URMSensor.cpp\<close> lines 137-254.
  Definitions shared by both revisions carry the source's name; where the two revisions
  differ the name is suffixed with \<open>_r1\<close> or \<open>_r2\<close>.

  The integer widths are those of the AVR boards the library targets: \<^verbatim>\<open>byte\<close> has 8 bits,
  \<^verbatim>\<open>int\<close> and \<^verbatim>\<open>unsigned int\<close> have 16, \<^verbatim>\<open>unsigned long\<close> has 32.
\<close>

subsection \<open>Machine types and constants\<close>

type_synonym byte = "8 word"
type_synonym c_int = "16 word"
type_synonym c_uint = "16 word"
type_synonym ulong = "32 word"

text \<open>
  Modelled from the spec: \<^verbatim>\<open>Arduino.h\<close> is not part of the repository. \<open>LOW\<close> is the logic
  level the spec calls Low, with the value the Arduino core gives it.
\<close>

definition LOW :: byte where
  "LOW = 0"

text \<open>
  Modelled from the spec: the logic level the spec calls High (\<^verbatim>\<open>HIGH\<close> of \<^verbatim>\<open>Arduino.h\<close>).
\<close>

definition HIGH :: byte where
  "HIGH = 1"

text \<open>
  Modelled from the spec: the pin direction the spec calls Input (\<^verbatim>\<open>INPUT\<close> of \<^verbatim>\<open>Arduino.h\<close>).
\<close>

definition INPUT :: byte where
  "INPUT = 0"

text \<open>
  Modelled from the spec: the pin direction the spec calls Output (\<^verbatim>\<open>OUTPUT\<close> of
  \<^verbatim>\<open>Arduino.h\<close>).
\<close>

definition OUTPUT :: byte where
  "OUTPUT = 1"

definition URM_INVALID_PIN :: byte where
  "URM_INVALID_PIN = 255"

definition URM_INVALID_VALUE :: ulong where
  "URM_INVALID_VALUE = 0xFFFFFFFF"

definition URM37_US_PER_CM :: c_int where
  "URM37_US_PER_CM = 50"

definition URM37_TRIG_ACTIVE_STATE :: byte where
  "URM37_TRIG_ACTIVE_STATE = LOW"

definition URM37_ECHO_ACTIVE_STATE :: byte where
  "URM37_ECHO_ACTIVE_STATE = LOW"

definition URM37_TRIG_PULSE_WIDTH :: c_uint where
  "URM37_TRIG_PULSE_WIDTH = 1"

definition URM37_TIMEOUT_FOR_PULSE_START :: ulong where
  "URM37_TIMEOUT_FOR_PULSE_START = 50000"

definition URM37_MAX_PULSE_WIDTH :: ulong where
  "URM37_MAX_PULSE_WIDTH = 45000"

datatype URMState = Idle | WaitingForPulse | Measuring | FinishedMeasure

text \<open>
  The one fallible operation of the driver is the division in
  \<^verbatim>\<open>convertCurrentDurationToDistance\<close>: dividing by a zero \<^verbatim>\<open>_usPerCm\<close> has no defined result.
\<close>

datatype error = DivisionByZero

subsection \<open>The hardware: pins and the microsecond clock\<close>

text \<open>
  What the program writes to the hardware is kept as a list of events, oldest first.
  \<open>PortWrite pin b\<close> and \<open>PortMode pin b\<close> are the register accesses of revision 2:
  setting (\<open>True\<close>) or clearing the pin's bit in its output and direction register.
\<close>

datatype hw_event =
    DigitalWrite byte byte
  | PinMode byte byte
  | DelayMicroseconds c_uint
  | PortWrite byte bool
  | PortMode byte bool

text \<open>
  Modelled from the spec: the Arduino core's \<^verbatim>\<open>micros\<close>, \<^verbatim>\<open>digitalRead\<close>, \<^verbatim>\<open>digitalWrite\<close>,
  \<^verbatim>\<open>pinMode\<close> and \<^verbatim>\<open>delayMicroseconds\<close> are not part of the repository; they are the clock
  (a 32-bit microsecond timestamp) and the pin read, write and direction operations the
  spec names as external collaborators.
  What the program reads from the hardware is given by two sequences: the \<open>k\<close>-th call of
  \<^verbatim>\<open>micros()\<close> returns \<open>micros_src k\<close>, and the \<open>k\<close>-th read of a pin sees the level
  \<open>pin_src k pin\<close> (\<open>True\<close> for high). The counters say how many reads have happened.
\<close>

record world =
  micros_src :: "nat \<Rightarrow> ulong"
  micros_cnt :: nat
  pin_src :: "nat \<Rightarrow> byte \<Rightarrow> bool"
  read_cnt :: nat
  outputs :: "hw_event list"

definition micros :: "world \<Rightarrow> ulong \<times> world" where
  "micros w = (micros_src w (micros_cnt w), w\<lparr>micros_cnt := Suc (micros_cnt w)\<rparr>)"

definition digitalRead :: "byte \<Rightarrow> world \<Rightarrow> byte \<times> world" where
  "digitalRead pin w =
     (if pin_src w (read_cnt w) pin then HIGH else LOW, w\<lparr>read_cnt := Suc (read_cnt w)\<rparr>)"

definition emit :: "hw_event \<Rightarrow> world \<Rightarrow> world" where
  "emit e w = w\<lparr>outputs := outputs w @ [e]\<rparr>"

definition digitalWrite :: "byte \<Rightarrow> byte \<Rightarrow> world \<Rightarrow> world" where
  "digitalWrite pin v w = emit (DigitalWrite pin v) w"

definition pinMode :: "byte \<Rightarrow> byte \<Rightarrow> world \<Rightarrow> world" where
  "pinMode pin m w = emit (PinMode pin m) w"

definition delayMicroseconds :: "c_uint \<Rightarrow> world \<Rightarrow> world" where
  "delayMicroseconds us w = emit (DelayMicroseconds us) w"

subsection \<open>The sensor object\<close>

text \<open>
  The fields of class \<^verbatim>\<open>URMSensor\<close>, without the leading underscore. \<open>currentState\<close> is
  declared \<^verbatim>\<open>byte\<close> and only ever assigned the four enumerators of \<^verbatim>\<open>URMState\<close>.
  \<open>usPerCm\<close> is a signed \<^verbatim>\<open>int\<close>: \<open>sint\<close> reads it.
\<close>

record URMSensor =
  trigPin :: byte
  echoPin :: byte
  usPerCm :: c_int
  timeoutForPulseStart :: ulong
  maxPulseDuration :: ulong
  trigActiveState :: byte
  echoActiveState :: byte
  trigPulseWidth :: c_uint
  startMeasureTime :: ulong
  currentDuration :: ulong
  currentState :: URMState

text \<open>
  Revision 2 adds the \<^verbatim>\<open>_isAttached\<close> flag. With \<^verbatim>\<open>URM_USE_PORTS_DIRECTLY\<close> defined it holds,
  instead of each pin number, the bit mask and the three port registers that the Arduino
  core computes from the pin number; the model keeps the pin number for that binding.
\<close>

record URMSensor_r2 = URMSensor +
  isAttached_flag :: bool

subsection \<open>Methods shared by both revisions\<close>

definition getOppositeStateFor :: "byte \<Rightarrow> byte" where
  "getOppositeStateFor activeState = (if activeState = HIGH then LOW else HIGH)"

definition resetTime :: "'a URMSensor_scheme \<Rightarrow> world \<Rightarrow> 'a URMSensor_scheme \<times> world" where
  "resetTime s w =
     (let s1 = s\<lparr>currentDuration := 0\<rparr>;
          (now, w1) = micros w
      in (s1\<lparr>startMeasureTime := now\<rparr>, w1))"

definition getCurrentDuration ::
  "'a URMSensor_scheme \<Rightarrow> world \<Rightarrow> ulong \<times> 'a URMSensor_scheme \<times> world" where
  "getCurrentDuration s w =
     (let (now, w1) = micros w;
          s1 = s\<lparr>currentDuration := now - startMeasureTime s\<rparr>
      in (currentDuration s1, s1, w1))"

text \<open>
  \<^verbatim>\<open>_currentDuration / _usPerCm\<close> divides an \<^verbatim>\<open>unsigned long\<close> by an \<^verbatim>\<open>int\<close>: the divisor is
  sign-extended to 32 bits and the division is unsigned.
\<close>

definition convertCurrentDurationToDistance :: "'a URMSensor_scheme \<Rightarrow> error + ulong" where
  "convertCurrentDurationToDistance s =
     (if usPerCm s = 0 then Inl DivisionByZero
      else Inr (currentDuration s div scast (usPerCm s)))"

definition isMeasuring :: "'a URMSensor_scheme \<Rightarrow> bool" where
  "isMeasuring s = (currentState s = WaitingForPulse \<or> currentState s = Measuring)"

definition interruptMeasure :: "'a URMSensor_scheme \<Rightarrow> 'a URMSensor_scheme" where
  "interruptMeasure s = s\<lparr>currentState := Idle\<rparr>"

definition getMeasuredDistance :: "'a URMSensor_scheme \<Rightarrow> error + ulong" where
  "getMeasuredDistance s =
     (if currentState s \<noteq> FinishedMeasure then Inr URM_INVALID_VALUE
      else convertCurrentDurationToDistance s)"

definition getState :: "'a URMSensor_scheme \<Rightarrow> URMState" where
  "getState s = currentState s"

subsection \<open>Revision 1: pin numbers\<close>

definition attach_r1 ::
  "byte \<Rightarrow> byte \<Rightarrow> c_int \<Rightarrow> ulong \<Rightarrow> ulong \<Rightarrow> byte \<Rightarrow> byte \<Rightarrow> c_uint \<Rightarrow>
   URMSensor \<Rightarrow> world \<Rightarrow> URMSensor \<times> world" where
  "attach_r1 trigPin' echoPin' usPerCm' timeoutForPulseStart' maxPulseDuration'
       trigActiveState' echoActiveState' trigPulseWidth' s w =
     (let s1 = s\<lparr>trigPin := trigPin'\<rparr>;
          s2 = s1\<lparr>echoPin := echoPin'\<rparr>;
          w1 = pinMode trigPin' OUTPUT w;
          w2 = pinMode echoPin' INPUT w1;
          s3 = s2\<lparr>usPerCm := usPerCm'\<rparr>;
          s4 = s3\<lparr>timeoutForPulseStart := timeoutForPulseStart'\<rparr>;
          s5 = s4\<lparr>maxPulseDuration := maxPulseDuration'\<rparr>;
          s6 = s5\<lparr>trigActiveState := trigActiveState'\<rparr>;
          s7 = s6\<lparr>echoActiveState := echoActiveState'\<rparr>;
          s8 = s7\<lparr>trigPulseWidth := trigPulseWidth'\<rparr>
      in (s8, w2))"

definition detach_r1 :: "URMSensor \<Rightarrow> URMSensor" where
  "detach_r1 s = s\<lparr>trigPin := URM_INVALID_PIN, echoPin := URM_INVALID_PIN\<rparr>"

definition isAttached_r1 :: "URMSensor \<Rightarrow> bool" where
  "isAttached_r1 s = (trigPin s \<noteq> URM_INVALID_PIN \<and> echoPin s \<noteq> URM_INVALID_PIN)"

definition refreshState_r1 :: "URMSensor \<Rightarrow> world \<Rightarrow> URMSensor \<times> world" where
  "refreshState_r1 s w =
     (let w1 = digitalWrite 12 HIGH w;
          (echoState, w2) = digitalRead (echoPin s) w1;
          (s', w') =
            (case currentState s of
               WaitingForPulse \<Rightarrow>
                 (let (d, s3, w3) = getCurrentDuration s w2 in
                  if d > timeoutForPulseStart s3 \<and> echoState \<noteq> echoActiveState s3
                  then (s3\<lparr>currentState := Idle\<rparr>, digitalWrite 8 HIGH w3)
                  else if echoState = echoActiveState s3
                  then (let (s4, w4) = resetTime (s3\<lparr>currentState := Measuring\<rparr>) w3
                        in (s4, digitalWrite 11 (echoActiveState s4) w4))
                  else (s3, w3))
             | Measuring \<Rightarrow>
                 (let (d, s3, w3) = getCurrentDuration s w2 in
                  if d > maxPulseDuration s3 \<and> echoState = echoActiveState s3
                  then (s3\<lparr>currentState := Idle\<rparr>, digitalWrite 8 HIGH w3)
                  else if echoState \<noteq> echoActiveState s3
                  then (s3\<lparr>currentState := FinishedMeasure\<rparr>,
                        digitalWrite 11 (getOppositeStateFor (echoActiveState s3)) w3)
                  else (s3, w3))
             | FinishedMeasure \<Rightarrow> (s, w2)
             | Idle \<Rightarrow> (s, w2))
      in (s', digitalWrite 12 LOW w'))"

definition startMeasure_r1 :: "URMSensor \<Rightarrow> world \<Rightarrow> URMSensor \<times> world" where
  "startMeasure_r1 s w =
     (if currentState s = WaitingForPulse \<or> currentState s = Measuring then (s, w)
      else if \<not> isAttached_r1 s then (s\<lparr>currentState := Idle\<rparr>, w)
      else
        (let s1 = s\<lparr>currentState := WaitingForPulse\<rparr>;
             w1 = digitalWrite (trigPin s1) (trigActiveState s1) w;
             w2 = delayMicroseconds (trigPulseWidth s1) w1;
             w3 = digitalWrite (trigPin s1) (getOppositeStateFor (trigActiveState s1)) w2;
             w4 = digitalWrite 11 (getOppositeStateFor (echoActiveState s1)) w3;
             w5 = digitalWrite 8 LOW w4;
             (s2, w6) = resetTime s1 w5
         in refreshState_r1 s2 w6))"

text \<open>
  \<^verbatim>\<open>finishedMeasure(unsigned long* distance)\<close>: the first argument is what
  \<^verbatim>\<open>*distance\<close> holds at the call, the second component of the result what it holds at
  the return.
\<close>

definition finishedMeasure_r1 ::
  "ulong \<Rightarrow> URMSensor \<Rightarrow> world \<Rightarrow> error + (bool \<times> ulong \<times> URMSensor \<times> world)" where
  "finishedMeasure_r1 distance s w =
     (if \<not> isAttached_r1 s
      then Inr (True, URM_INVALID_VALUE, s\<lparr>currentState := Idle\<rparr>, w)
      else
        (let (s1, w1) = refreshState_r1 s w in
         if isMeasuring s1 then Inr (False, distance, s1, w1)
         else (case getMeasuredDistance s1 of
                 Inl e \<Rightarrow> Inl e
               | Inr d \<Rightarrow> Inr (True, d, s1, w1))))"

subsection \<open>Revision 2: port registers and the attached flag\<close>

definition setTrigMode :: "byte \<Rightarrow> URMSensor_r2 \<Rightarrow> world \<Rightarrow> world" where
  "setTrigMode newMode s w = emit (PortMode (trigPin s) (newMode = OUTPUT)) w"

definition setTrigPin :: "byte \<Rightarrow> URMSensor_r2 \<Rightarrow> world \<Rightarrow> URMSensor_r2 \<times> world" where
  "setTrigPin trigPin' s w =
     (let s1 = s\<lparr>trigPin := trigPin'\<rparr> in (s1, setTrigMode OUTPUT s1 w))"

definition fastDigitalWriteTrig :: "byte \<Rightarrow> URMSensor_r2 \<Rightarrow> world \<Rightarrow> world" where
  "fastDigitalWriteTrig v s w = emit (PortWrite (trigPin s) (v = HIGH)) w"

definition setEchoPin :: "byte \<Rightarrow> URMSensor_r2 \<Rightarrow> world \<Rightarrow> URMSensor_r2 \<times> world" where
  "setEchoPin echoPin' s w =
     (let s1 = s\<lparr>echoPin := echoPin'\<rparr>;
          w1 = emit (PortMode (echoPin s1) False) w;
          w2 = emit (PortWrite (echoPin s1) False) w1
      in (s1, w2))"

definition fastDigitalReadEcho :: "URMSensor_r2 \<Rightarrow> world \<Rightarrow> byte \<times> world" where
  "fastDigitalReadEcho s w = digitalRead (echoPin s) w"

definition attach_r2 ::
  "byte \<Rightarrow> byte \<Rightarrow> c_int \<Rightarrow> ulong \<Rightarrow> ulong \<Rightarrow> byte \<Rightarrow> byte \<Rightarrow> c_uint \<Rightarrow>
   URMSensor_r2 \<Rightarrow> world \<Rightarrow> URMSensor_r2 \<times> world" where
  "attach_r2 trigPin' echoPin' usPerCm' timeoutForPulseStart' maxPulseDuration'
       trigActiveState' echoActiveState' trigPulseWidth' s w =
     (let (s1, w1) = setTrigPin trigPin' s w;
          (s2, w2) = setEchoPin echoPin' s1 w1;
          s3 = s2\<lparr>usPerCm := usPerCm'\<rparr>;
          s4 = s3\<lparr>timeoutForPulseStart := timeoutForPulseStart'\<rparr>;
          s5 = s4\<lparr>maxPulseDuration := maxPulseDuration'\<rparr>;
          s6 = s5\<lparr>trigActiveState := trigActiveState'\<rparr>;
          s7 = s6\<lparr>echoActiveState := echoActiveState'\<rparr>;
          s8 = s7\<lparr>trigPulseWidth := trigPulseWidth'\<rparr>
      in (s8\<lparr>isAttached_flag := True\<rparr>, w2))"

definition detach_r2 :: "URMSensor_r2 \<Rightarrow> URMSensor_r2" where
  "detach_r2 s = s\<lparr>isAttached_flag := False\<rparr>"

definition isAttached_r2 :: "URMSensor_r2 \<Rightarrow> bool" where
  "isAttached_r2 s = isAttached_flag s"

definition refreshState_r2 :: "URMSensor_r2 \<Rightarrow> world \<Rightarrow> URMSensor_r2 \<times> world" where
  "refreshState_r2 s w =
     (let (echoState, w2) = fastDigitalReadEcho s w in
      case currentState s of
        WaitingForPulse \<Rightarrow>
          (let (d, s3, w3) = getCurrentDuration s w2 in
           if d > timeoutForPulseStart s3 \<and> echoState \<noteq> echoActiveState s3
           then (s3\<lparr>currentState := Idle\<rparr>, w3)
           else if echoState = echoActiveState s3
           then resetTime (s3\<lparr>currentState := Measuring\<rparr>) w3
           else (s3, w3))
      | Measuring \<Rightarrow>
          (let (d, s3, w3) = getCurrentDuration s w2 in
           if d > maxPulseDuration s3 \<and> echoState = echoActiveState s3
           then (s3\<lparr>currentState := Idle\<rparr>, w3)
           else if echoState \<noteq> echoActiveState s3
           then (s3\<lparr>currentState := FinishedMeasure\<rparr>, w3)
           else (s3, w3))
      | FinishedMeasure \<Rightarrow> (s, w2)
      | Idle \<Rightarrow> (s, w2))"

definition startMeasure_r2 :: "URMSensor_r2 \<Rightarrow> world \<Rightarrow> URMSensor_r2 \<times> world" where
  "startMeasure_r2 s w =
     (if currentState s = WaitingForPulse \<or> currentState s = Measuring then (s, w)
      else if \<not> isAttached_r2 s then (s\<lparr>currentState := Idle\<rparr>, w)
      else
        (let (echoState, w0) = fastDigitalReadEcho s w in
         if echoState = echoActiveState s then (s\<lparr>currentState := Idle\<rparr>, w0)
         else
           (let s1 = s\<lparr>currentState := WaitingForPulse\<rparr>;
                w1 = fastDigitalWriteTrig (trigActiveState s1) s1 w0;
                w2 = delayMicroseconds (trigPulseWidth s1) w1;
                w3 = fastDigitalWriteTrig (getOppositeStateFor (trigActiveState s1)) s1 w2;
                (s2, w4) = resetTime s1 w3
            in refreshState_r2 s2 w4)))"

definition finishedMeasure_r2 :: "URMSensor_r2 \<Rightarrow> world \<Rightarrow> bool \<times> URMSensor_r2 \<times> world" where
  "finishedMeasure_r2 s w =
     (if \<not> isAttached_flag s then (True, s\<lparr>currentState := Idle\<rparr>, w)
      else
        (let (s1, w1) = refreshState_r2 s w in (\<not> isMeasuring s1, s1, w1)))"

subsection \<open>The synchronous facade\<close>

text \<open>
  \<^verbatim>\<open>while (!finishedMeasure()) ;\<close> may spin forever (an echo line that never answers and
  a timeout the clock never exceeds), so the loop is a partial function: \<open>None\<close> is the
  loop that does not return.
\<close>

partial_function (option) awaitFinished_r2 ::
  "URMSensor_r2 \<times> world \<Rightarrow> (URMSensor_r2 \<times> world) option" where
  "awaitFinished_r2 sw =
     (let (finished, sw') = finishedMeasure_r2 (fst sw) (snd sw)
      in if finished then Some sw' else awaitFinished_r2 sw')"

definition measureDistance_r2 ::
  "URMSensor_r2 \<Rightarrow> world \<Rightarrow> ((error + ulong) \<times> URMSensor_r2 \<times> world) option" where
  "measureDistance_r2 s w =
     (case awaitFinished_r2 (startMeasure_r2 s w) of
        None \<Rightarrow> None
      | Some (s2, w2) \<Rightarrow> Some (getMeasuredDistance s2, s2, w2))"

text \<open>
  In revision 1 the loop carries the local variable \<^verbatim>\<open>distance\<close>, which
  \<^verbatim>\<open>finishedMeasure(&distance)\<close> writes when it returns true. The variable is not
  initialised: \<open>distance0\<close> is whatever it holds at first. A failed division inside
  \<^verbatim>\<open>finishedMeasure\<close> ends the run with that error.
\<close>

partial_function (option) awaitFinished_r1 ::
  "ulong \<times> URMSensor \<times> world \<Rightarrow> (error + ulong \<times> URMSensor \<times> world) option" where
  "awaitFinished_r1 dsw =
     (case finishedMeasure_r1 (fst dsw) (fst (snd dsw)) (snd (snd dsw)) of
        Inl e \<Rightarrow> Some (Inl e)
      | Inr (finished, dsw') \<Rightarrow> if finished then Some (Inr dsw') else awaitFinished_r1 dsw')"

definition measureDistance_r1 ::
  "ulong \<Rightarrow> URMSensor \<Rightarrow> world \<Rightarrow> (error + ulong \<times> URMSensor \<times> world) option" where
  "measureDistance_r1 distance0 s w =
     (let (s1, w1) = startMeasure_r1 s w in awaitFinished_r1 (distance0, s1, w1))"

subsection \<open>Observations used in the statements\<close>

text \<open>
  \<open>echoLevel s w\<close> is the level that the next read of the echo pin returns, and
  \<open>elapsed s w\<close> the duration that the next call of \<^verbatim>\<open>getCurrentDuration()\<close> computes:
  the clock reading minus the start timestamp, in 32-bit unsigned arithmetic.
\<close>

definition echoLevel :: "'a URMSensor_scheme \<Rightarrow> world \<Rightarrow> byte" where
  "echoLevel s w = fst (digitalRead (echoPin s) w)"

definition elapsed :: "'a URMSensor_scheme \<Rightarrow> world \<Rightarrow> ulong" where
  "elapsed s w = fst (micros w) - startMeasureTime s"

subsection \<open>A simulated sensor for concrete runs\<close>

text \<open>
  \<open>sim_world ts ls\<close> is a world whose clock returns the readings \<open>ts\<close> in turn (then 0)
  and whose pins show the levels \<open>ls\<close> in turn (then low). \<open>new_URMSensor_r1\<close> and
  \<open>new_URMSensor_r2\<close> are the objects the constructors leave in zero-initialised storage;
  \<^verbatim>\<open>URM37::attach\<close> binds the DFRobot URM37 preset.
\<close>

definition seq_of :: "'a \<Rightarrow> 'a list \<Rightarrow> nat \<Rightarrow> 'a" where
  "seq_of d xs k = (if k < length xs then xs ! k else d)"

definition sim_world :: "ulong list \<Rightarrow> bool list \<Rightarrow> world" where
  "sim_world ts ls =
     \<lparr>micros_src = seq_of 0 ts, micros_cnt = 0,
      pin_src = (\<lambda>k pin. seq_of False ls k), read_cnt = 0, outputs = []\<rparr>"

definition new_URMSensor_r1 :: URMSensor where
  "new_URMSensor_r1 =
     \<lparr>trigPin = URM_INVALID_PIN, echoPin = URM_INVALID_PIN, usPerCm = 0,
      timeoutForPulseStart = 0, maxPulseDuration = 0, trigActiveState = 0,
      echoActiveState = 0, trigPulseWidth = 0, startMeasureTime = 0, currentDuration = 0,
      currentState = Idle\<rparr>"

definition new_URMSensor_r2 :: URMSensor_r2 where
  "new_URMSensor_r2 =
     \<lparr>trigPin = 0, echoPin = 0, usPerCm = 0,
      timeoutForPulseStart = 0, maxPulseDuration = 0, trigActiveState = 0,
      echoActiveState = 0, trigPulseWidth = 0, startMeasureTime = 0, currentDuration = 0,
      currentState = Idle, isAttached_flag = False\<rparr>"

definition URM37_attach_r1 :: "byte \<Rightarrow> byte \<Rightarrow> URMSensor \<Rightarrow> world \<Rightarrow> URMSensor \<times> world" where
  "URM37_attach_r1 trigPin' pwmPin s w =
     attach_r1 trigPin' pwmPin URM37_US_PER_CM URM37_TIMEOUT_FOR_PULSE_START
       URM37_MAX_PULSE_WIDTH URM37_TRIG_ACTIVE_STATE URM37_ECHO_ACTIVE_STATE
       URM37_TRIG_PULSE_WIDTH s w"

definition URM37_attach_r2 ::
  "byte \<Rightarrow> byte \<Rightarrow> URMSensor_r2 \<Rightarrow> world \<Rightarrow> URMSensor_r2 \<times> world" where
  "URM37_attach_r2 trigPin' pwmPin s w =
     attach_r2 trigPin' pwmPin URM37_US_PER_CM URM37_TIMEOUT_FOR_PULSE_START
       URM37_MAX_PULSE_WIDTH URM37_TRIG_ACTIVE_STATE URM37_ECHO_ACTIVE_STATE
       URM37_TRIG_PULSE_WIDTH s w"

text \<open>
  \<open>demo_r1 st\<close> and \<open>demo_r2 st\<close>: a URM37 attached to pins 9 (trigger) and 10 (echo), as in
  the example sketch, with its state machine in state \<open>st\<close>.
\<close>

definition demo_r1 :: "URMState \<Rightarrow> URMSensor" where
  "demo_r1 st =
     (fst (URM37_attach_r1 9 10 new_URMSensor_r1 (sim_world [] [])))\<lparr>currentState := st\<rparr>"

definition demo_r2 :: "URMState \<Rightarrow> URMSensor_r2" where
  "demo_r2 st =
     (fst (URM37_attach_r2 9 10 new_URMSensor_r2 (sim_world [] [])))\<lparr>currentState := st\<rparr>"

subsection \<open>The asynchronous path, as the spec words it\<close>

text \<open>
  The spec describes the synchronous facade as: call \<^verbatim>\<open>start()\<close>, then call
  \<^verbatim>\<open>finishedMeasure()\<close> repeatedly until it returns true, then return
  \<^verbatim>\<open>measuredDistance()\<close>. \<open>async_wait k\<close> is a caller of the asynchronous interface that
  calls \<^verbatim>\<open>finishedMeasure()\<close> until it returns true and gives up (\<open>None\<close>) after \<open>k\<close>
  calls; \<open>async_measure k\<close> puts the start in front and the distance query behind. The
  caller of revision 1 passes a pointer to \<^verbatim>\<open>finishedMeasure\<close> as it must, but takes the
  distance from the query. These definitions follow the spec; \<open>measureDistance_r1\<close> and
  \<open>measureDistance_r2\<close> above follow the source.
\<close>

fun async_wait_r2 :: "nat \<Rightarrow> URMSensor_r2 \<times> world \<Rightarrow> (URMSensor_r2 \<times> world) option" where
  "async_wait_r2 0 sw = None"
| "async_wait_r2 (Suc k) sw =
     (let (finished, sw') = finishedMeasure_r2 (fst sw) (snd sw)
      in if finished then Some sw' else async_wait_r2 k sw')"

definition async_measure_r2 ::
  "nat \<Rightarrow> URMSensor_r2 \<Rightarrow> world \<Rightarrow> ((error + ulong) \<times> URMSensor_r2 \<times> world) option" where
  "async_measure_r2 k s w =
     (case async_wait_r2 k (startMeasure_r2 s w) of
        None \<Rightarrow> None
      | Some (s', w') \<Rightarrow> Some (getMeasuredDistance s', s', w'))"

fun async_wait_r1 ::
  "nat \<Rightarrow> ulong \<times> URMSensor \<times> world \<Rightarrow> (error + ulong \<times> URMSensor \<times> world) option" where
  "async_wait_r1 0 dsw = None"
| "async_wait_r1 (Suc k) dsw =
     (case finishedMeasure_r1 (fst dsw) (fst (snd dsw)) (snd (snd dsw)) of
        Inl e \<Rightarrow> Some (Inl e)
      | Inr (finished, dsw') \<Rightarrow> if finished then Some (Inr dsw') else async_wait_r1 k dsw')"

definition async_measure_r1 ::
  "nat \<Rightarrow> ulong \<Rightarrow> URMSensor \<Rightarrow> world \<Rightarrow> (error + ulong \<times> URMSensor \<times> world) option" where
  "async_measure_r1 k d0 s w =
     (let (s1, w1) = startMeasure_r1 s w in
      case async_wait_r1 k (d0, s1, w1) of
        None \<Rightarrow> None
      | Some (Inl e) \<Rightarrow> Some (Inl e)
      | Some (Inr (d, s', w')) \<Rightarrow>
          (case getMeasuredDistance s' of
             Inl e \<Rightarrow> Some (Inl e)
           | Inr dist \<Rightarrow> Some (Inr (dist, s', w'))))"

subsection \<open>A well-behaved echo\<close>

text \<open>
  Seen from a world \<open>w\<close>: \<open>echoActiveAt s w k\<close> says that the \<open>k\<close>-th pin read from now finds
  the echo line at its active level, \<open>clockAt w k\<close> is the \<open>k\<close>-th clock reading from now.
  \<open>advance r c w\<close> is \<open>w\<close> after \<open>r\<close> pin reads and \<open>c\<close> clock reads; \<open>later r c w w'\<close> says
  the same of \<open>w'\<close> without fixing what was written in between.
\<close>

definition echoActiveAt :: "'a URMSensor_scheme \<Rightarrow> world \<Rightarrow> nat \<Rightarrow> bool" where
  "echoActiveAt s w k = (echoLevel s (w\<lparr>read_cnt := read_cnt w + k\<rparr>) = echoActiveState s)"

definition clockAt :: "world \<Rightarrow> nat \<Rightarrow> ulong" where
  "clockAt w k = micros_src w (micros_cnt w + k)"

definition advance :: "nat \<Rightarrow> nat \<Rightarrow> world \<Rightarrow> world" where
  "advance r c w = w\<lparr>read_cnt := read_cnt w + r, micros_cnt := micros_cnt w + c\<rparr>"

definition later :: "nat \<Rightarrow> nat \<Rightarrow> world \<Rightarrow> world \<Rightarrow> bool" where
  "later r c w w' \<longleftrightarrow>
     micros_src w' = micros_src w \<and> pin_src w' = pin_src w \<and>
     read_cnt w' = read_cnt w + r \<and> micros_cnt w' = micros_cnt w + c"

text \<open>
  A well-behaved echo for a measurement started in \<open>w\<close>, where \<open>k\<close> pin reads happen before
  the first poll: the first \<open>n\<close> polls find the echo line inactive and the start timeout not
  exceeded, the next poll finds it active, the \<open>m\<close> polls after that find it still active
  and the maximal pulse duration not exceeded, and the poll after those finds it inactive.
  The clock is read once by \<^verbatim>\<open>startMeasure()\<close>, once by every poll, and once more when
  \<open>Measuring\<close> is entered. \<open>pulseWidth w n m\<close> is the duration \<open>D\<close> the driver measures: the
  reading of the last poll minus the reading taken on entering \<open>Measuring\<close>.
\<close>

definition wellBehavedEcho :: "'a URMSensor_scheme \<Rightarrow> world \<Rightarrow> nat \<Rightarrow> nat \<Rightarrow> nat \<Rightarrow> bool" where
  "wellBehavedEcho s w k n m \<longleftrightarrow>
     (\<forall>j\<in>{0..<n}. \<not> echoActiveAt s w (k + j) \<and>
        clockAt w (Suc j) - clockAt w 0 \<le> timeoutForPulseStart s) \<and>
     echoActiveAt s w (k + n) \<and>
     (\<forall>i\<in>{0..<m}. echoActiveAt s w (k + n + 1 + i) \<and>
        clockAt w (n + 3 + i) - clockAt w (n + 2) \<le> maxPulseDuration s) \<and>
     \<not> echoActiveAt s w (k + n + 1 + m)"

definition pulseWidth :: "world \<Rightarrow> nat \<Rightarrow> nat \<Rightarrow> ulong" where
  "pulseWidth w n m = clockAt w (n + 3 + m) - clockAt w (n + 2)"

text \<open>
  Simulated runs for a URM37 (active level low): an echo of 3000 microseconds, and an echo line
  that never answers, each for revision 1 and, with one more pin read for the pre-check, for
  revision 2.
\<close>

definition echo_r1 :: world where
  "echo_r1 = sim_world [100, 1100, 2100, 2104, 3600, 5104] [True, False, False, True]"

definition echo_r2 :: world where
  "echo_r2 = sim_world [100, 1100, 2100, 2104, 3600, 5104] [True, True, False, False, True]"

definition silent_r1 :: world where
  "silent_r1 = sim_world [100, 60000] [True, True]"

definition silent_r2 :: world where
  "silent_r2 = sim_world [100, 60000] [True, True, True]"

section \<open>Properties\<close>

subsection \<open>Unfolding the hardware and the simulated sensor\<close>

lemmas hw_defs = micros_def digitalRead_def emit_def digitalWrite_def pinMode_def
  delayMicroseconds_def fastDigitalReadEcho_def fastDigitalWriteTrig_def

lemmas time_defs = resetTime_def getCurrentDuration_def

lemmas const_defs = LOW_def HIGH_def INPUT_def OUTPUT_def URM_INVALID_PIN_def
  URM_INVALID_VALUE_def URM37_US_PER_CM_def URM37_TRIG_ACTIVE_STATE_def
  URM37_ECHO_ACTIVE_STATE_def URM37_TRIG_PULSE_WIDTH_def URM37_TIMEOUT_FOR_PULSE_START_def
  URM37_MAX_PULSE_WIDTH_def

lemmas demo_defs = demo_r1_def demo_r2_def URM37_attach_r1_def URM37_attach_r2_def
  new_URMSensor_r1_def new_URMSensor_r2_def sim_world_def seq_of_def attach_r1_def attach_r2_def
  setTrigPin_def setEchoPin_def setTrigMode_def

lemmas obs_defs = elapsed_def echoLevel_def

lemma demo_r1_eval: "demo_r1 st = \<lparr>trigPin = 9, echoPin = 10, usPerCm = 50,
      timeoutForPulseStart = 50000, maxPulseDuration = 45000, trigActiveState = 0,
      echoActiveState = 0, trigPulseWidth = 1, startMeasureTime = 0, currentDuration = 0,
      currentState = st\<rparr>"
  by (simp add: demo_defs const_defs hw_defs Let_def)

lemma demo_r2_eval: "demo_r2 st = \<lparr>trigPin = 9, echoPin = 10, usPerCm = 50,
      timeoutForPulseStart = 50000, maxPulseDuration = 45000, trigActiveState = 0,
      echoActiveState = 0, trigPulseWidth = 1, startMeasureTime = 0, currentDuration = 0,
      currentState = st, isAttached_flag = True\<rparr>"
  by (simp add: demo_defs const_defs hw_defs Let_def)

subsection \<open>One poll, case by case\<close>

lemma refreshState_r1_waiting:
  assumes "currentState s = WaitingForPulse"
  shows "refreshState_r1 s w =
    (if timeoutForPulseStart s < elapsed s w \<and> echoLevel s w \<noteq> echoActiveState s
     then (s\<lparr>currentDuration := elapsed s w, currentState := Idle\<rparr>,
           w\<lparr>read_cnt := Suc (read_cnt w), micros_cnt := Suc (micros_cnt w),
             outputs := outputs w @
               [DigitalWrite 12 HIGH, DigitalWrite 8 HIGH, DigitalWrite 12 LOW]\<rparr>)
     else if echoLevel s w = echoActiveState s
     then (s\<lparr>currentDuration := 0, currentState := Measuring,
             startMeasureTime := micros_src w (Suc (micros_cnt w))\<rparr>,
           w\<lparr>read_cnt := Suc (read_cnt w), micros_cnt := Suc (Suc (micros_cnt w)),
             outputs := outputs w @
               [DigitalWrite 12 HIGH, DigitalWrite 11 (echoActiveState s), DigitalWrite 12 LOW]\<rparr>)
     else (s\<lparr>currentDuration := elapsed s w\<rparr>,
           w\<lparr>read_cnt := Suc (read_cnt w), micros_cnt := Suc (micros_cnt w),
             outputs := outputs w @ [DigitalWrite 12 HIGH, DigitalWrite 12 LOW]\<rparr>))"
  using assms
  by (simp add: refreshState_r1_def hw_defs time_defs echoLevel_def elapsed_def Let_def)

lemma refreshState_r1_measuring:
  assumes "currentState s = Measuring"
  shows "refreshState_r1 s w =
    (if maxPulseDuration s < elapsed s w \<and> echoLevel s w = echoActiveState s
     then (s\<lparr>currentDuration := elapsed s w, currentState := Idle\<rparr>,
           w\<lparr>read_cnt := Suc (read_cnt w), micros_cnt := Suc (micros_cnt w),
             outputs := outputs w @
               [DigitalWrite 12 HIGH, DigitalWrite 8 HIGH, DigitalWrite 12 LOW]\<rparr>)
     else if echoLevel s w \<noteq> echoActiveState s
     then (s\<lparr>currentDuration := elapsed s w, currentState := FinishedMeasure\<rparr>,
           w\<lparr>read_cnt := Suc (read_cnt w), micros_cnt := Suc (micros_cnt w),
             outputs := outputs w @
               [DigitalWrite 12 HIGH,
                DigitalWrite 11 (getOppositeStateFor (echoActiveState s)),
                DigitalWrite 12 LOW]\<rparr>)
     else (s\<lparr>currentDuration := elapsed s w\<rparr>,
           w\<lparr>read_cnt := Suc (read_cnt w), micros_cnt := Suc (micros_cnt w),
             outputs := outputs w @ [DigitalWrite 12 HIGH, DigitalWrite 12 LOW]\<rparr>))"
  using assms
  by (simp add: refreshState_r1_def hw_defs time_defs echoLevel_def elapsed_def Let_def)

lemma refreshState_r1_rest:
  assumes "currentState s = Idle \<or> currentState s = FinishedMeasure"
  shows "refreshState_r1 s w =
    (s, w\<lparr>read_cnt := Suc (read_cnt w),
           outputs := outputs w @ [DigitalWrite 12 HIGH, DigitalWrite 12 LOW]\<rparr>)"
  using assms
  by (auto simp add: refreshState_r1_def hw_defs Let_def)

lemma refreshState_r2_waiting:
  assumes "currentState s = WaitingForPulse"
  shows "refreshState_r2 s w =
    (if timeoutForPulseStart s < elapsed s w \<and> echoLevel s w \<noteq> echoActiveState s
     then (s\<lparr>currentDuration := elapsed s w, currentState := Idle\<rparr>,
           w\<lparr>read_cnt := Suc (read_cnt w), micros_cnt := Suc (micros_cnt w)\<rparr>)
     else if echoLevel s w = echoActiveState s
     then (s\<lparr>currentDuration := 0, currentState := Measuring,
             startMeasureTime := micros_src w (Suc (micros_cnt w))\<rparr>,
           w\<lparr>read_cnt := Suc (read_cnt w), micros_cnt := Suc (Suc (micros_cnt w))\<rparr>)
     else (s\<lparr>currentDuration := elapsed s w\<rparr>,
           w\<lparr>read_cnt := Suc (read_cnt w), micros_cnt := Suc (micros_cnt w)\<rparr>))"
  using assms
  by (simp add: refreshState_r2_def hw_defs time_defs echoLevel_def elapsed_def Let_def)

lemma refreshState_r2_measuring:
  assumes "currentState s = Measuring"
  shows "refreshState_r2 s w =
    (if maxPulseDuration s < elapsed s w \<and> echoLevel s w = echoActiveState s
     then (s\<lparr>currentDuration := elapsed s w, currentState := Idle\<rparr>,
           w\<lparr>read_cnt := Suc (read_cnt w), micros_cnt := Suc (micros_cnt w)\<rparr>)
     else if echoLevel s w \<noteq> echoActiveState s
     then (s\<lparr>currentDuration := elapsed s w, currentState := FinishedMeasure\<rparr>,
           w\<lparr>read_cnt := Suc (read_cnt w), micros_cnt := Suc (micros_cnt w)\<rparr>)
     else (s\<lparr>currentDuration := elapsed s w\<rparr>,
           w\<lparr>read_cnt := Suc (read_cnt w), micros_cnt := Suc (micros_cnt w)\<rparr>))"
  using assms
  by (simp add: refreshState_r2_def hw_defs time_defs echoLevel_def elapsed_def Let_def)

lemma refreshState_r2_rest:
  assumes "currentState s = Idle \<or> currentState s = FinishedMeasure"
  shows "refreshState_r2 s w = (s, w\<lparr>read_cnt := Suc (read_cnt w)\<rparr>)"
  using assms
  by (auto simp add: refreshState_r2_def hw_defs time_defs echoLevel_def elapsed_def Let_def)

subsection \<open>The poll\<close>

text \<open>
  Claim C1. A poll in \<open>WaitingForPulse\<close> that finds the start timeout exceeded and the echo
  line active goes to \<open>Measuring\<close>; a poll in \<open>Measuring\<close> that finds the maximal pulse
  duration exceeded and the echo line inactive goes to \<open>FinishedMeasure\<close>. Neither goes
  to \<open>Idle\<close>. This holds in both revisions of \<^verbatim>\<open>refreshState\<close>.
\<close>

theorem poll_tie_break:
  "(currentState s1 = WaitingForPulse \<and> timeoutForPulseStart s1 < elapsed s1 w \<and>
      echoLevel s1 w = echoActiveState s1
      \<longrightarrow> currentState (fst (refreshState_r1 s1 w)) = Measuring) \<and>
   (currentState s1 = Measuring \<and> maxPulseDuration s1 < elapsed s1 w \<and>
      echoLevel s1 w \<noteq> echoActiveState s1
      \<longrightarrow> currentState (fst (refreshState_r1 s1 w)) = FinishedMeasure) \<and>
   (currentState s2 = WaitingForPulse \<and> timeoutForPulseStart s2 < elapsed s2 w \<and>
      echoLevel s2 w = echoActiveState s2
      \<longrightarrow> currentState (fst (refreshState_r2 s2 w)) = Measuring) \<and>
   (currentState s2 = Measuring \<and> maxPulseDuration s2 < elapsed s2 w \<and>
      echoLevel s2 w \<noteq> echoActiveState s2
      \<longrightarrow> currentState (fst (refreshState_r2 s2 w)) = FinishedMeasure)"
  by (simp add: refreshState_r1_waiting refreshState_r1_measuring
      refreshState_r2_waiting refreshState_r2_measuring)

theorem poll_tie_break_witness:
  "currentState (demo_r1 WaitingForPulse) = WaitingForPulse \<and>
   timeoutForPulseStart (demo_r1 WaitingForPulse)
     < elapsed (demo_r1 WaitingForPulse) (sim_world [60000, 60004] [False]) \<and>
   echoLevel (demo_r1 WaitingForPulse) (sim_world [60000, 60004] [False])
     = echoActiveState (demo_r1 WaitingForPulse) \<and>
   currentState (fst (refreshState_r1 (demo_r1 WaitingForPulse)
     (sim_world [60000, 60004] [False]))) = Measuring \<and>
   currentState (fst (refreshState_r2 (demo_r2 WaitingForPulse)
     (sim_world [60000, 60004] [False]))) = Measuring \<and>
   currentState (demo_r1 Measuring) = Measuring \<and>
   maxPulseDuration (demo_r1 Measuring) < elapsed (demo_r1 Measuring) (sim_world [60000] [True]) \<and>
   echoLevel (demo_r1 Measuring) (sim_world [60000] [True])
     \<noteq> echoActiveState (demo_r1 Measuring) \<and>
   currentState (fst (refreshState_r1 (demo_r1 Measuring) (sim_world [60000] [True])))
     = FinishedMeasure \<and>
   currentState (fst (refreshState_r2 (demo_r2 Measuring) (sim_world [60000] [True])))
     = FinishedMeasure"
  using
    poll_tie_break [of "demo_r1 WaitingForPulse" "sim_world [60000, 60004] [False]"
      "demo_r2 WaitingForPulse"]
    poll_tie_break [of "demo_r1 Measuring" "sim_world [60000] [True]" "demo_r2 Measuring"]
  by (simp add: demo_r1_eval demo_r2_eval obs_defs hw_defs sim_world_def seq_of_def const_defs)

text \<open>
  Claim C2. A poll in \<open>WaitingForPulse\<close>: with the start timeout exceeded and the echo line
  not active the state becomes \<open>Idle\<close>; with the echo line active the state becomes
  \<open>Measuring\<close>, the start timestamp becomes the clock reading taken by \<^verbatim>\<open>resetTime()\<close> in
  this poll (the second reading of the poll) and the duration is reset to 0.
\<close>

theorem poll_waiting:
  "(currentState s1 = WaitingForPulse \<longrightarrow>
      (timeoutForPulseStart s1 < elapsed s1 w \<and> echoLevel s1 w \<noteq> echoActiveState s1
         \<longrightarrow> currentState (fst (refreshState_r1 s1 w)) = Idle) \<and>
      (echoLevel s1 w = echoActiveState s1
         \<longrightarrow> currentState (fst (refreshState_r1 s1 w)) = Measuring \<and>
             startMeasureTime (fst (refreshState_r1 s1 w)) = micros_src w (Suc (micros_cnt w)) \<and>
             currentDuration (fst (refreshState_r1 s1 w)) = 0)) \<and>
   (currentState s2 = WaitingForPulse \<longrightarrow>
      (timeoutForPulseStart s2 < elapsed s2 w \<and> echoLevel s2 w \<noteq> echoActiveState s2
         \<longrightarrow> currentState (fst (refreshState_r2 s2 w)) = Idle) \<and>
      (echoLevel s2 w = echoActiveState s2
         \<longrightarrow> currentState (fst (refreshState_r2 s2 w)) = Measuring \<and>
             startMeasureTime (fst (refreshState_r2 s2 w)) = micros_src w (Suc (micros_cnt w)) \<and>
             currentDuration (fst (refreshState_r2 s2 w)) = 0))"
  by (simp add: refreshState_r1_waiting refreshState_r2_waiting)

theorem poll_waiting_witness:
  "currentState (demo_r1 WaitingForPulse) = WaitingForPulse \<and>
   timeoutForPulseStart (demo_r1 WaitingForPulse)
     < elapsed (demo_r1 WaitingForPulse) (sim_world [50001] [True]) \<and>
   echoLevel (demo_r1 WaitingForPulse) (sim_world [50001] [True])
     \<noteq> echoActiveState (demo_r1 WaitingForPulse) \<and>
   currentState (fst (refreshState_r1 (demo_r1 WaitingForPulse) (sim_world [50001] [True])))
     = Idle \<and>
   currentState (fst (refreshState_r2 (demo_r2 WaitingForPulse) (sim_world [50001] [True])))
     = Idle \<and>
   echoLevel (demo_r1 WaitingForPulse) (sim_world [2000, 2004] [False])
     = echoActiveState (demo_r1 WaitingForPulse) \<and>
   currentState (fst (refreshState_r1 (demo_r1 WaitingForPulse)
     (sim_world [2000, 2004] [False]))) = Measuring \<and>
   startMeasureTime (fst (refreshState_r1 (demo_r1 WaitingForPulse)
     (sim_world [2000, 2004] [False]))) = 2004 \<and>
   currentState (fst (refreshState_r2 (demo_r2 WaitingForPulse)
     (sim_world [2000, 2004] [False]))) = Measuring \<and>
   startMeasureTime (fst (refreshState_r2 (demo_r2 WaitingForPulse)
     (sim_world [2000, 2004] [False]))) = 2004 \<and>
   currentDuration (fst (refreshState_r2 (demo_r2 WaitingForPulse)
     (sim_world [2000, 2004] [False]))) = 0"
  using
    poll_waiting [of "demo_r1 WaitingForPulse" "sim_world [50001] [True]"
      "demo_r2 WaitingForPulse"]
    poll_waiting [of "demo_r1 WaitingForPulse" "sim_world [2000, 2004] [False]"
      "demo_r2 WaitingForPulse"]
  by (simp add: demo_r1_eval demo_r2_eval obs_defs hw_defs sim_world_def seq_of_def const_defs)

text \<open>
  Claim C3. A poll in \<open>Measuring\<close>: with the maximal pulse duration exceeded and the echo
  line still active the state becomes \<open>Idle\<close>; with the echo line no longer active the
  state becomes \<open>FinishedMeasure\<close> and \<open>currentDuration\<close> holds the time elapsed since
  \<open>Measuring\<close> was entered.
\<close>

theorem poll_measuring:
  "(currentState s1 = Measuring \<longrightarrow>
      (maxPulseDuration s1 < elapsed s1 w \<and> echoLevel s1 w = echoActiveState s1
         \<longrightarrow> currentState (fst (refreshState_r1 s1 w)) = Idle) \<and>
      (echoLevel s1 w \<noteq> echoActiveState s1
         \<longrightarrow> currentState (fst (refreshState_r1 s1 w)) = FinishedMeasure \<and>
             currentDuration (fst (refreshState_r1 s1 w)) = elapsed s1 w)) \<and>
   (currentState s2 = Measuring \<longrightarrow>
      (maxPulseDuration s2 < elapsed s2 w \<and> echoLevel s2 w = echoActiveState s2
         \<longrightarrow> currentState (fst (refreshState_r2 s2 w)) = Idle) \<and>
      (echoLevel s2 w \<noteq> echoActiveState s2
         \<longrightarrow> currentState (fst (refreshState_r2 s2 w)) = FinishedMeasure \<and>
             currentDuration (fst (refreshState_r2 s2 w)) = elapsed s2 w))"
  by (simp add: refreshState_r1_measuring refreshState_r2_measuring)

theorem poll_measuring_witness:
  "currentState (demo_r1 Measuring) = Measuring \<and>
   maxPulseDuration (demo_r1 Measuring) < elapsed (demo_r1 Measuring) (sim_world [45001] [False]) \<and>
   echoLevel (demo_r1 Measuring) (sim_world [45001] [False])
     = echoActiveState (demo_r1 Measuring) \<and>
   currentState (fst (refreshState_r1 (demo_r1 Measuring) (sim_world [45001] [False]))) = Idle \<and>
   currentState (fst (refreshState_r2 (demo_r2 Measuring) (sim_world [45001] [False]))) = Idle \<and>
   echoLevel (demo_r1 Measuring) (sim_world [3000] [True])
     \<noteq> echoActiveState (demo_r1 Measuring) \<and>
   currentState (fst (refreshState_r1 (demo_r1 Measuring) (sim_world [3000] [True])))
     = FinishedMeasure \<and>
   currentDuration (fst (refreshState_r1 (demo_r1 Measuring) (sim_world [3000] [True])))
     = 3000 \<and>
   currentState (fst (refreshState_r2 (demo_r2 Measuring) (sim_world [3000] [True])))
     = FinishedMeasure \<and>
   currentDuration (fst (refreshState_r2 (demo_r2 Measuring) (sim_world [3000] [True])))
     = 3000"
  using
    poll_measuring [of "demo_r1 Measuring" "sim_world [45001] [False]" "demo_r2 Measuring"]
    poll_measuring [of "demo_r1 Measuring" "sim_world [3000] [True]" "demo_r2 Measuring"]
  by (simp add: demo_r1_eval demo_r2_eval obs_defs hw_defs sim_world_def seq_of_def const_defs)

subsection \<open>The distance query\<close>

lemma scast_pos_unat:
  fixes x :: "16 word"
  assumes "0 < sint x"
  shows "unat (scast x :: 32 word) = nat (sint x)"
proof -
  have lt: "sint x < 2 ^ 15" using sint_lt [of x] by simp
  have "uint (scast x :: 32 word) = uint (word_of_int (sint x) :: 32 word)"
    by (simp only: scast_eq)
  also have "\<dots> = sint x mod 2 ^ 32"
    by (simp only: uint_word_of_int len_bit0 len_num1 mult_1_right mult_1, simp)
  also have "\<dots> = sint x" using assms lt by simp
  finally show ?thesis by (simp add: unat_eq_nat_uint del: of_int_sint)
qed

text \<open>
  Claim C4. \<^verbatim>\<open>getMeasuredDistance()\<close> returns \<open>URM_INVALID_VALUE\<close> in every state other than
  \<open>FinishedMeasure\<close>; in \<open>FinishedMeasure\<close>, for a positive \<open>usPerCm\<close>, it returns the latched
  duration divided by \<open>usPerCm\<close>, rounded down. It is a function of the object alone and
  returns no new object: the source method assigns no field.
\<close>

theorem getMeasuredDistance_contract:
  "(currentState s \<noteq> FinishedMeasure \<longrightarrow> getMeasuredDistance s = Inr URM_INVALID_VALUE) \<and>
   (currentState s = FinishedMeasure \<and> 0 < sint (usPerCm s) \<longrightarrow>
      (\<exists>d. getMeasuredDistance s = Inr d \<and>
           unat d = unat (currentDuration s) div nat (sint (usPerCm s))))"
proof (intro conjI impI)
  assume "currentState s \<noteq> FinishedMeasure"
  then show "getMeasuredDistance s = Inr URM_INVALID_VALUE"
    by (simp add: getMeasuredDistance_def)
next
  assume a: "currentState s = FinishedMeasure \<and> 0 < sint (usPerCm s)"
  then have nz: "usPerCm s \<noteq> 0" by auto
  have "unat (currentDuration s div scast (usPerCm s)) =
        unat (currentDuration s) div nat (sint (usPerCm s))"
    using a by (simp only: unat_div scast_pos_unat)
  with a nz show "\<exists>d. getMeasuredDistance s = Inr d \<and>
           unat d = unat (currentDuration s) div nat (sint (usPerCm s))"
    by (simp add: getMeasuredDistance_def convertCurrentDurationToDistance_def)
qed

theorem getMeasuredDistance_contract_witness:
  "currentState (demo_r1 Idle) \<noteq> FinishedMeasure \<and>
   getMeasuredDistance (demo_r1 Idle) = Inr URM_INVALID_VALUE \<and>
   currentState ((demo_r2 FinishedMeasure)\<lparr>currentDuration := 3049\<rparr>) = FinishedMeasure \<and>
   0 < sint (usPerCm ((demo_r2 FinishedMeasure)\<lparr>currentDuration := 3049\<rparr>)) \<and>
   (\<exists>d. getMeasuredDistance ((demo_r2 FinishedMeasure)\<lparr>currentDuration := 3049\<rparr>) = Inr d \<and>
        unat d = 60)"
  using
    getMeasuredDistance_contract [of "demo_r1 Idle"]
    getMeasuredDistance_contract [of "(demo_r2 FinishedMeasure)\<lparr>currentDuration := 3049\<rparr>"]
  by (simp add: demo_r1_eval demo_r2_eval)

subsection \<open>The completion query\<close>

lemma usPerCm_refreshState_r1: "usPerCm (fst (refreshState_r1 s w)) = usPerCm s"
  by (cases "currentState s")
     (simp_all add: refreshState_r1_waiting refreshState_r1_measuring refreshState_r1_rest)

lemma finishedMeasure_r1_attached:
  assumes "isAttached_r1 s" and "usPerCm s \<noteq> 0"
  shows "\<exists>d'. finishedMeasure_r1 d s w =
           Inr (\<not> isMeasuring (fst (refreshState_r1 s w)), d', refreshState_r1 s w)"
proof -
  obtain s' w' where r: "refreshState_r1 s w = (s', w')" by (cases "refreshState_r1 s w")
  have nz: "usPerCm s' \<noteq> 0" using usPerCm_refreshState_r1 [of s w] r assms(2) by simp
  show ?thesis
  proof (cases "isMeasuring s'")
    case True
    with r assms(1) show ?thesis by (simp add: finishedMeasure_r1_def)
  next
    case False
    with r assms(1) nz show ?thesis
      by (simp add: finishedMeasure_r1_def getMeasuredDistance_def
          convertCurrentDurationToDistance_def)
  qed
qed

text \<open>
  Claim C7. \<^verbatim>\<open>finishedMeasure()\<close> on a handle that is not attached sets the state to \<open>Idle\<close>
  and returns true without touching the hardware (revision 1 stores \<open>URM_INVALID_VALUE\<close>
  through its pointer); on an attached handle it runs \<^verbatim>\<open>refreshState()\<close> once and returns
  true exactly when the state after that poll is neither \<open>WaitingForPulse\<close> nor
  \<open>Measuring\<close>. Revision 1 also divides by \<open>usPerCm\<close> when it returns true in
  \<open>FinishedMeasure\<close>, so its attached case is stated for a nonzero \<open>usPerCm\<close>.
\<close>

theorem finishedMeasure_contract:
  "(\<not> isAttached_r1 s1 \<longrightarrow>
      finishedMeasure_r1 d s1 w = Inr (True, URM_INVALID_VALUE, s1\<lparr>currentState := Idle\<rparr>, w)) \<and>
   (isAttached_r1 s1 \<and> usPerCm s1 \<noteq> 0 \<longrightarrow>
      (\<exists>d'. finishedMeasure_r1 d s1 w =
         Inr (\<not> isMeasuring (fst (refreshState_r1 s1 w)), d', refreshState_r1 s1 w))) \<and>
   (\<not> isAttached_r2 s2 \<longrightarrow>
      finishedMeasure_r2 s2 w = (True, s2\<lparr>currentState := Idle\<rparr>, w)) \<and>
   (isAttached_r2 s2 \<longrightarrow>
      finishedMeasure_r2 s2 w =
        (\<not> isMeasuring (fst (refreshState_r2 s2 w)), refreshState_r2 s2 w))"
proof (intro conjI impI)
  assume "\<not> isAttached_r1 s1"
  then show "finishedMeasure_r1 d s1 w =
      Inr (True, URM_INVALID_VALUE, s1\<lparr>currentState := Idle\<rparr>, w)"
    by (simp add: finishedMeasure_r1_def)
next
  assume "isAttached_r1 s1 \<and> usPerCm s1 \<noteq> 0"
  then show "\<exists>d'. finishedMeasure_r1 d s1 w =
         Inr (\<not> isMeasuring (fst (refreshState_r1 s1 w)), d', refreshState_r1 s1 w)"
    using finishedMeasure_r1_attached by blast
next
  assume "\<not> isAttached_r2 s2"
  then show "finishedMeasure_r2 s2 w = (True, s2\<lparr>currentState := Idle\<rparr>, w)"
    by (simp add: finishedMeasure_r2_def isAttached_r2_def)
next
  assume "isAttached_r2 s2"
  then show "finishedMeasure_r2 s2 w =
        (\<not> isMeasuring (fst (refreshState_r2 s2 w)), refreshState_r2 s2 w)"
    by (simp add: finishedMeasure_r2_def isAttached_r2_def split_beta)
qed

theorem finishedMeasure_contract_witness:
  "\<not> isAttached_r1 new_URMSensor_r1 \<and>
   finishedMeasure_r1 7 new_URMSensor_r1 (sim_world [] []) =
     Inr (True, URM_INVALID_VALUE, new_URMSensor_r1\<lparr>currentState := Idle\<rparr>, sim_world [] []) \<and>
   \<not> isAttached_r2 new_URMSensor_r2 \<and>
   finishedMeasure_r2 new_URMSensor_r2 (sim_world [] []) =
     (True, new_URMSensor_r2\<lparr>currentState := Idle\<rparr>, sim_world [] []) \<and>
   isAttached_r1 (demo_r1 Measuring) \<and> usPerCm (demo_r1 Measuring) \<noteq> 0 \<and>
   (\<exists>d'. finishedMeasure_r1 7 (demo_r1 Measuring) (sim_world [3000] [True]) =
      Inr (True, d', refreshState_r1 (demo_r1 Measuring) (sim_world [3000] [True]))) \<and>
   isAttached_r2 (demo_r2 Measuring) \<and>
   finishedMeasure_r2 (demo_r2 Measuring) (sim_world [3000] [False]) =
     (False, refreshState_r2 (demo_r2 Measuring) (sim_world [3000] [False]))"
  using
    finishedMeasure_contract [of new_URMSensor_r1 7 "sim_world [] []" new_URMSensor_r2]
    finishedMeasure_contract [of "demo_r1 Measuring" 7 "sim_world [3000] [True]"
      "demo_r2 Measuring"]
    finishedMeasure_contract [of "demo_r1 Measuring" 7 "sim_world [3000] [False]"
      "demo_r2 Measuring"]
  by (simp add: demo_r1_eval demo_r2_eval isAttached_r1_def isAttached_r2_def
      new_URMSensor_r1_def new_URMSensor_r2_def isMeasuring_def refreshState_r1_measuring
      refreshState_r2_measuring obs_defs hw_defs sim_world_def seq_of_def const_defs)

subsection \<open>Starting and attaching\<close>

text \<open>
  Claim C8. \<^verbatim>\<open>startMeasure()\<close> on a handle in \<open>WaitingForPulse\<close> or \<open>Measuring\<close> returns the
  object and the hardware as they were: no field changes, nothing is written to a pin and
  nothing is read.
\<close>

theorem startMeasure_noop_while_measuring:
  "(isMeasuring s1 \<longrightarrow> startMeasure_r1 s1 w = (s1, w)) \<and>
   (isMeasuring s2 \<longrightarrow> startMeasure_r2 s2 w = (s2, w))"
  by (simp add: isMeasuring_def startMeasure_r1_def startMeasure_r2_def)

theorem startMeasure_noop_while_measuring_witness:
  "isMeasuring (demo_r1 WaitingForPulse) \<and>
   startMeasure_r1 (demo_r1 WaitingForPulse) (sim_world [5] [True]) =
     (demo_r1 WaitingForPulse, sim_world [5] [True]) \<and>
   isMeasuring (demo_r2 Measuring) \<and>
   startMeasure_r2 (demo_r2 Measuring) (sim_world [5] [True]) =
     (demo_r2 Measuring, sim_world [5] [True])"
  using
    startMeasure_noop_while_measuring [of "demo_r1 WaitingForPulse" "sim_world [5] [True]"
      "demo_r2 Measuring"]
  by (simp add: isMeasuring_def demo_r1_eval demo_r2_eval)

text \<open>
  Claim C10. \<^verbatim>\<open>attach()\<close> assigns the two pin bindings and the six profile fields
  (revision 2 also sets the attached flag) and configures the two pins; the state, the
  latched duration and the start timestamp are what they were, so attaching again does
  not bring the state machine back to \<open>Idle\<close>.
\<close>

theorem attach_frame:
  "attach_r1 tp ep u t m ta ea tw s1 w =
     (s1\<lparr>trigPin := tp, echoPin := ep, usPerCm := u, timeoutForPulseStart := t,
         maxPulseDuration := m, trigActiveState := ta, echoActiveState := ea,
         trigPulseWidth := tw\<rparr>,
      w\<lparr>outputs := outputs w @ [PinMode tp OUTPUT, PinMode ep INPUT]\<rparr>) \<and>
   currentState (fst (attach_r1 tp ep u t m ta ea tw s1 w)) = currentState s1 \<and>
   currentDuration (fst (attach_r1 tp ep u t m ta ea tw s1 w)) = currentDuration s1 \<and>
   startMeasureTime (fst (attach_r1 tp ep u t m ta ea tw s1 w)) = startMeasureTime s1 \<and>
   attach_r2 tp ep u t m ta ea tw s2 w =
     (s2\<lparr>trigPin := tp, echoPin := ep, usPerCm := u, timeoutForPulseStart := t,
         maxPulseDuration := m, trigActiveState := ta, echoActiveState := ea,
         trigPulseWidth := tw, isAttached_flag := True\<rparr>,
      w\<lparr>outputs := outputs w @ [PortMode tp True, PortMode ep False, PortWrite ep False]\<rparr>) \<and>
   currentState (fst (attach_r2 tp ep u t m ta ea tw s2 w)) = currentState s2 \<and>
   currentDuration (fst (attach_r2 tp ep u t m ta ea tw s2 w)) = currentDuration s2 \<and>
   startMeasureTime (fst (attach_r2 tp ep u t m ta ea tw s2 w)) = startMeasureTime s2"
  by (simp add: attach_r1_def attach_r2_def setTrigPin_def setEchoPin_def setTrigMode_def
      hw_defs Let_def)

theorem attach_frame_witness:
  "currentState (fst (attach_r1 3 4 61 10000 27450 HIGH HIGH 10
     ((demo_r1 FinishedMeasure)\<lparr>currentDuration := 3000\<rparr>) (sim_world [] []))) = FinishedMeasure \<and>
   currentDuration (fst (attach_r1 3 4 61 10000 27450 HIGH HIGH 10
     ((demo_r1 FinishedMeasure)\<lparr>currentDuration := 3000\<rparr>) (sim_world [] []))) = 3000 \<and>
   currentState (fst (attach_r2 3 4 61 10000 27450 HIGH HIGH 10
     (demo_r2 WaitingForPulse) (sim_world [] []))) = WaitingForPulse \<and>
   currentState (fst (attach_r2 3 4 61 10000 27450 HIGH HIGH 10
     (demo_r2 FinishedMeasure) (sim_world [] []))) \<noteq> Idle"
  using
    attach_frame [of 3 4 61 10000 27450 HIGH HIGH 10
      "(demo_r1 FinishedMeasure)\<lparr>currentDuration := 3000\<rparr>" "sim_world [] []"
      "demo_r2 WaitingForPulse"]
    attach_frame [of 3 4 61 10000 27450 HIGH HIGH 10
      "(demo_r1 FinishedMeasure)\<lparr>currentDuration := 3000\<rparr>" "sim_world [] []"
      "demo_r2 FinishedMeasure"]
  by (simp add: demo_r1_eval demo_r2_eval)

subsection \<open>Detaching\<close>

text \<open>
  Claim C5, as stated, fails: \<^verbatim>\<open>detach()\<close> only marks the handle as not attached (revision 1
  through the pin numbers, revision 2 through the flag). A handle detached in
  \<open>FinishedMeasure\<close> stays there, and \<^verbatim>\<open>getMeasuredDistance()\<close>, which does not look at the
  attachment, still returns the latched distance: 3000 microseconds at 50 per centimetre
  give 60.
\<close>

theorem detach_keeps_distance_counterexample:
  "currentState (detach_r1 ((demo_r1 FinishedMeasure)\<lparr>currentDuration := 3000\<rparr>)) = FinishedMeasure \<and>
   getMeasuredDistance (detach_r1 ((demo_r1 FinishedMeasure)\<lparr>currentDuration := 3000\<rparr>)) = Inr 60 \<and>
   (60 :: ulong) \<noteq> URM_INVALID_VALUE \<and>
   currentState (detach_r2 ((demo_r2 FinishedMeasure)\<lparr>currentDuration := 3000\<rparr>)) = FinishedMeasure \<and>
   getMeasuredDistance (detach_r2 ((demo_r2 FinishedMeasure)\<lparr>currentDuration := 3000\<rparr>)) = Inr 60"
  by (simp add: demo_r1_eval demo_r2_eval detach_r1_def detach_r2_def getMeasuredDistance_def
      convertCurrentDurationToDistance_def const_defs)

lemma isAttached_detach_r1: "\<not> isAttached_r1 (detach_r1 s)"
  by (simp add: isAttached_r1_def detach_r1_def)

text \<open>
  Claim C5, amended. \<^verbatim>\<open>detach()\<close> leaves the state and the latched duration as they are.
  After it, \<^verbatim>\<open>finishedMeasure()\<close>, whatever the state was, and \<^verbatim>\<open>startMeasure()\<close>, when the
  state was neither \<open>WaitingForPulse\<close> nor \<open>Measuring\<close>, set the state to \<open>Idle\<close> without
  touching the hardware, and the distance query then returns \<open>URM_INVALID_VALUE\<close>.
\<close>

theorem detach_then_checked_operation:
  "currentState (detach_r1 s1) = currentState s1 \<and>
   currentDuration (detach_r1 s1) = currentDuration s1 \<and>
   finishedMeasure_r1 d (detach_r1 s1) w =
     Inr (True, URM_INVALID_VALUE, (detach_r1 s1)\<lparr>currentState := Idle\<rparr>, w) \<and>
   (\<not> isMeasuring s1 \<longrightarrow>
      startMeasure_r1 (detach_r1 s1) w = ((detach_r1 s1)\<lparr>currentState := Idle\<rparr>, w)) \<and>
   getMeasuredDistance ((detach_r1 s1)\<lparr>currentState := Idle\<rparr>) = Inr URM_INVALID_VALUE \<and>
   currentState (detach_r2 s2) = currentState s2 \<and>
   currentDuration (detach_r2 s2) = currentDuration s2 \<and>
   finishedMeasure_r2 (detach_r2 s2) w = (True, (detach_r2 s2)\<lparr>currentState := Idle\<rparr>, w) \<and>
   (\<not> isMeasuring s2 \<longrightarrow>
      startMeasure_r2 (detach_r2 s2) w = ((detach_r2 s2)\<lparr>currentState := Idle\<rparr>, w)) \<and>
   getMeasuredDistance ((detach_r2 s2)\<lparr>currentState := Idle\<rparr>) = Inr URM_INVALID_VALUE"
  by (simp add: finishedMeasure_r1_def finishedMeasure_r2_def startMeasure_r1_def
      startMeasure_r2_def isAttached_detach_r1 isAttached_r2_def isMeasuring_def
      getMeasuredDistance_def)
     (simp add: detach_r1_def detach_r2_def)

theorem detach_then_checked_operation_witness:
  "\<not> isMeasuring ((demo_r1 FinishedMeasure)\<lparr>currentDuration := 3000\<rparr>) \<and>
   currentState (fst (startMeasure_r1
     (detach_r1 ((demo_r1 FinishedMeasure)\<lparr>currentDuration := 3000\<rparr>)) (sim_world [] []))) = Idle \<and>
   snd (startMeasure_r1
     (detach_r1 ((demo_r1 FinishedMeasure)\<lparr>currentDuration := 3000\<rparr>)) (sim_world [] []))
     = sim_world [] [] \<and>
   \<not> isMeasuring (demo_r2 FinishedMeasure) \<and>
   currentState (fst (startMeasure_r2 (detach_r2 (demo_r2 FinishedMeasure)) (sim_world [] [])))
     = Idle \<and>
   finishedMeasure_r2 (detach_r2 (demo_r2 Measuring)) (sim_world [] []) =
     (True, (detach_r2 (demo_r2 Measuring))\<lparr>currentState := Idle\<rparr>, sim_world [] [])"
  using
    detach_then_checked_operation [of "(demo_r1 FinishedMeasure)\<lparr>currentDuration := 3000\<rparr>"
      7 "sim_world [] []" "demo_r2 FinishedMeasure"]
    detach_then_checked_operation [of "(demo_r1 FinishedMeasure)\<lparr>currentDuration := 3000\<rparr>"
      7 "sim_world [] []" "demo_r2 Measuring"]
  by (simp add: isMeasuring_def demo_r1_eval demo_r2_eval)

subsection \<open>Starting with the echo line already active\<close>

text \<open>
  Revision 2 reads the echo line before triggering: on an attached handle that is not
  measuring, with the echo line at its active level, \<^verbatim>\<open>startMeasure()\<close> reads the echo pin
  once, sets the state to \<open>Idle\<close> and writes nothing to the hardware.
\<close>

theorem startMeasure_r2_echo_active:
  "isAttached_r2 s \<and> \<not> isMeasuring s \<and> echoLevel s w = echoActiveState s \<longrightarrow>
     startMeasure_r2 s w = (s\<lparr>currentState := Idle\<rparr>, w\<lparr>read_cnt := Suc (read_cnt w)\<rparr>) \<and>
     currentState (fst (startMeasure_r2 s w)) = Idle \<and>
     outputs (snd (startMeasure_r2 s w)) = outputs w"
  by (simp add: startMeasure_r2_def isAttached_r2_def isMeasuring_def obs_defs hw_defs)

theorem startMeasure_r2_echo_active_witness:
  "isAttached_r2 (demo_r2 Idle) \<and> \<not> isMeasuring (demo_r2 Idle) \<and>
   echoLevel (demo_r2 Idle) (sim_world [0, 4, 8] [False, False]) = echoActiveState (demo_r2 Idle) \<and>
   currentState (fst (startMeasure_r2 (demo_r2 Idle) (sim_world [0, 4, 8] [False, False]))) = Idle \<and>
   outputs (snd (startMeasure_r2 (demo_r2 Idle) (sim_world [0, 4, 8] [False, False]))) = []"
  using startMeasure_r2_echo_active [of "demo_r2 Idle" "sim_world [0, 4, 8] [False, False]"]
  by (simp add: demo_r2_eval isAttached_r2_def isMeasuring_def obs_defs hw_defs sim_world_def
      seq_of_def const_defs)

text \<open>
  Claim C6. Revision 1 does not do this. Its comment above the test says "Failing the
  measure if this instance is not attached to the sensor, or the ECHO pin is not in IDLE
  state", its header declares \<^verbatim>\<open>EchoIsAlreadyActive\<close> and documents \<^verbatim>\<open>URM_INVALID_VALUE\<close> as
  the result of an invalid state of the sensor pins at \<^verbatim>\<open>startMeasure()\<close>, but the read of
  the echo pin is commented out of the condition. On an attached idle URM37 whose echo
  line is already active (low), \<^verbatim>\<open>startMeasure()\<close> of revision 1 drives the trigger pin
  (pin 9 low, 1 microsecond, pin 9 high) and its first poll takes the handle to
  \<open>Measuring\<close>, where the claim, the comment and revision 2 have it abort to \<open>Idle\<close>.
\<close>

theorem startMeasure_r1_echo_active_drives_trigger:
  "isAttached_r1 (demo_r1 Idle) \<and> \<not> isMeasuring (demo_r1 Idle) \<and>
   echoLevel (demo_r1 Idle) (sim_world [0, 4, 8] [False, False]) = echoActiveState (demo_r1 Idle) \<and>
   currentState (fst (startMeasure_r1 (demo_r1 Idle) (sim_world [0, 4, 8] [False, False])))
     = Measuring \<and>
   outputs (snd (startMeasure_r1 (demo_r1 Idle) (sim_world [0, 4, 8] [False, False]))) =
     [DigitalWrite 9 LOW, DelayMicroseconds 1, DigitalWrite 9 HIGH,
      DigitalWrite 11 HIGH, DigitalWrite 8 LOW,
      DigitalWrite 12 HIGH, DigitalWrite 11 LOW, DigitalWrite 12 LOW]"
  by (simp add: demo_r1_eval isAttached_r1_def isMeasuring_def startMeasure_r1_def
      refreshState_r1_def getOppositeStateFor_def obs_defs hw_defs time_defs sim_world_def
      seq_of_def const_defs Let_def)

subsection \<open>The synchronous facade against the asynchronous path\<close>

lemma awaitFinished_r2_complete:
  "async_wait_r2 k sw = Some r \<Longrightarrow> awaitFinished_r2 sw = Some r"
proof (induction k arbitrary: sw)
  case 0
  then show ?case by simp
next
  case (Suc k)
  obtain b sw' where f: "finishedMeasure_r2 (fst sw) (snd sw) = (b, sw')"
    by (cases "finishedMeasure_r2 (fst sw) (snd sw)")
  show ?case
  proof (cases b)
    case True
    with f Suc.prems show ?thesis by (subst awaitFinished_r2.simps) simp
  next
    case False
    with f Suc.prems have "async_wait_r2 k sw' = Some r" by simp
    then have "awaitFinished_r2 sw' = Some r" by (rule Suc.IH)
    with f False show ?thesis by (subst awaitFinished_r2.simps) simp
  qed
qed

lemma awaitFinished_r2_sound:
  assumes "awaitFinished_r2 sw = Some r"
  shows "\<exists>k. async_wait_r2 k sw = Some r"
proof (rule awaitFinished_r2.raw_induct
    [where P = "\<lambda>sw r. \<exists>k. async_wait_r2 k sw = Some r", OF _ assms])
  fix loop :: "URMSensor_r2 \<times> world \<Rightarrow> (URMSensor_r2 \<times> world) option" and sw r
  assume IH: "\<And>x y. loop x = Some y \<Longrightarrow> \<exists>k. async_wait_r2 k x = Some y"
    and body: "(let (finished, sw') = finishedMeasure_r2 (fst sw) (snd sw)
                in if finished then Some sw' else loop sw') = Some r"
  obtain b sw' where f: "finishedMeasure_r2 (fst sw) (snd sw) = (b, sw')"
    by (cases "finishedMeasure_r2 (fst sw) (snd sw)")
  show "\<exists>k. async_wait_r2 k sw = Some r"
  proof (cases b)
    case True
    with f body have "async_wait_r2 (Suc 0) sw = Some r" by simp
    then show ?thesis by blast
  next
    case False
    with f body have "loop sw' = Some r" by simp
    then obtain k where "async_wait_r2 k sw' = Some r" using IH by blast
    with f False have "async_wait_r2 (Suc k) sw = Some r" by simp
    then show ?thesis by blast
  qed
qed

lemma measureDistance_r2_iff:
  "measureDistance_r2 s w = Some r \<longleftrightarrow> (\<exists>k. async_measure_r2 k s w = Some r)"
proof
  assume "measureDistance_r2 s w = Some r"
  then obtain s' w' where a: "awaitFinished_r2 (startMeasure_r2 s w) = Some (s', w')"
    and r: "r = (getMeasuredDistance s', s', w')"
    by (auto simp: measureDistance_r2_def split: option.splits)
  from awaitFinished_r2_sound [OF a] obtain k where
    "async_wait_r2 k (startMeasure_r2 s w) = Some (s', w')" by blast
  with r have "async_measure_r2 k s w = Some r" by (simp add: async_measure_r2_def)
  then show "\<exists>k. async_measure_r2 k s w = Some r" by blast
next
  assume "\<exists>k. async_measure_r2 k s w = Some r"
  then obtain k where k: "async_measure_r2 k s w = Some r" by blast
  then obtain s' w' where a: "async_wait_r2 k (startMeasure_r2 s w) = Some (s', w')"
    and r: "r = (getMeasuredDistance s', s', w')"
    by (auto simp: async_measure_r2_def split: option.splits)
  from awaitFinished_r2_complete [OF a] r show "measureDistance_r2 s w = Some r"
    by (simp add: measureDistance_r2_def)
qed

lemma finishedMeasure_r1_true:
  assumes "finishedMeasure_r1 d s w = Inr (True, d', s', w')"
  shows "getMeasuredDistance s' = Inr d'"
  using assms
  by (auto simp: finishedMeasure_r1_def getMeasuredDistance_def split_beta
      split: if_splits sum.splits)

lemma awaitFinished_r1_complete:
  "async_wait_r1 k dsw = Some res \<Longrightarrow> awaitFinished_r1 dsw = Some res"
proof (induction k arbitrary: dsw)
  case 0
  then show ?case by simp
next
  case (Suc k)
  show ?case
  proof (cases "finishedMeasure_r1 (fst dsw) (fst (snd dsw)) (snd (snd dsw))")
    case (Inl e)
    with Suc.prems show ?thesis by (subst awaitFinished_r1.simps) simp
  next
    case (Inr x)
    obtain b dsw' where x: "x = (b, dsw')" by (cases x)
    show ?thesis
    proof (cases b)
      case True
      with Inr x Suc.prems show ?thesis by (subst awaitFinished_r1.simps) simp
    next
      case False
      with Inr x Suc.prems have "async_wait_r1 k dsw' = Some res" by simp
      then have "awaitFinished_r1 dsw' = Some res" by (rule Suc.IH)
      with Inr x False show ?thesis by (subst awaitFinished_r1.simps) simp
    qed
  qed
qed

lemma awaitFinished_r1_sound:
  assumes "awaitFinished_r1 dsw = Some res"
  shows "\<exists>k. async_wait_r1 k dsw = Some res"
proof (rule awaitFinished_r1.raw_induct
    [where P = "\<lambda>dsw res. \<exists>k. async_wait_r1 k dsw = Some res", OF _ assms])
  fix loop :: "ulong \<times> URMSensor \<times> world \<Rightarrow> (error + ulong \<times> URMSensor \<times> world) option"
    and dsw res
  assume IH: "\<And>x y. loop x = Some y \<Longrightarrow> \<exists>k. async_wait_r1 k x = Some y"
    and body: "(case finishedMeasure_r1 (fst dsw) (fst (snd dsw)) (snd (snd dsw)) of
        Inl e \<Rightarrow> Some (Inl e)
      | Inr (finished, dsw') \<Rightarrow> if finished then Some (Inr dsw') else loop dsw') = Some res"
  show "\<exists>k. async_wait_r1 k dsw = Some res"
  proof (cases "finishedMeasure_r1 (fst dsw) (fst (snd dsw)) (snd (snd dsw))")
    case (Inl e)
    with body have "async_wait_r1 (Suc 0) dsw = Some res" by simp
    then show ?thesis by blast
  next
    case (Inr x)
    obtain b dsw' where x: "x = (b, dsw')" by (cases x)
    show ?thesis
    proof (cases b)
      case True
      with Inr x body have "async_wait_r1 (Suc 0) dsw = Some res" by simp
      then show ?thesis by blast
    next
      case False
      with Inr x body have "loop dsw' = Some res" by simp
      then obtain k where "async_wait_r1 k dsw' = Some res" using IH by blast
      with Inr x False have "async_wait_r1 (Suc k) dsw = Some res" by simp
      then show ?thesis by blast
    qed
  qed
qed

lemma async_wait_r1_value:
  "async_wait_r1 k dsw = Some (Inr (d, s', w')) \<Longrightarrow> getMeasuredDistance s' = Inr d"
proof (induction k arbitrary: dsw)
  case 0
  then show ?case by simp
next
  case (Suc k)
  show ?case
  proof (cases "finishedMeasure_r1 (fst dsw) (fst (snd dsw)) (snd (snd dsw))")
    case (Inl e)
    with Suc.prems show ?thesis by simp
  next
    case (Inr x)
    obtain b dsw' where x: "x = (b, dsw')" by (cases x)
    show ?thesis
    proof (cases b)
      case True
      with Inr x Suc.prems have "dsw' = (d, s', w')" by simp
      with Inr x True
        finishedMeasure_r1_true [of "fst dsw" "fst (snd dsw)" "snd (snd dsw)" d s' w']
      show ?thesis by simp
    next
      case False
      with Inr x Suc.prems have "async_wait_r1 k dsw' = Some (Inr (d, s', w'))" by simp
      then show ?thesis by (rule Suc.IH)
    qed
  qed
qed

lemma async_measure_r1_eq:
  "async_measure_r1 k d0 s w = async_wait_r1 k (d0, startMeasure_r1 s w)"
proof (cases "async_wait_r1 k (d0, startMeasure_r1 s w)")
  case None
  then show ?thesis by (simp add: async_measure_r1_def split_beta)
next
  case (Some res)
  show ?thesis
  proof (cases res)
    case (Inl e)
    with Some show ?thesis by (simp add: async_measure_r1_def split_beta)
  next
    case (Inr x)
    obtain d s' w' where x: "x = (d, s', w')" by (cases x)
    from Some Inr x async_wait_r1_value [of k "(d0, startMeasure_r1 s w)" d s' w']
    have "getMeasuredDistance s' = Inr d" by simp
    with Some Inr x show ?thesis by (simp add: async_measure_r1_def split_beta)
  qed
qed

lemma measureDistance_r1_iff:
  "measureDistance_r1 d0 s w = Some res \<longleftrightarrow> (\<exists>k. async_measure_r1 k d0 s w = Some res)"
  using awaitFinished_r1_sound [of "(d0, startMeasure_r1 s w)" res]
    awaitFinished_r1_complete [of _ "(d0, startMeasure_r1 s w)" res]
  by (auto simp add: measureDistance_r1_def async_measure_r1_eq split_beta)

subsection \<open>Revision 2 on a well-behaved echo\<close>

lemma awaitFinished_r2_step:
  assumes "isAttached_flag s" and "refreshState_r2 s w = (s', w')"
  shows "awaitFinished_r2 (s, w) =
           (if isMeasuring s' then awaitFinished_r2 (s', w') else Some (s', w'))"
  by (subst awaitFinished_r2.simps) (simp add: finishedMeasure_r2_def assms)

lemma echoActiveAt_0: "echoActiveAt s w 0 \<longleftrightarrow> echoLevel s w = echoActiveState s"
  by (simp add: echoActiveAt_def)

lemma clockAt_0: "clockAt w 0 - startMeasureTime s = elapsed s w"
  by (simp add: clockAt_def elapsed_def micros_def)

lemma waiting_polls_r2:
  assumes "isAttached_flag s" and "currentState s = WaitingForPulse"
    and "\<forall>j<n. \<not> echoActiveAt s w j \<and>
           clockAt w j - startMeasureTime s \<le> timeoutForPulseStart s"
  shows "\<exists>d. awaitFinished_r2 (s, w) =
           awaitFinished_r2 (s\<lparr>currentDuration := d\<rparr>, advance n n w)"
  using assms
proof (induction n arbitrary: s w)
  case 0
  have "s\<lparr>currentDuration := currentDuration s\<rparr> = s" by simp
  moreover have "advance 0 0 w = w" by (simp add: advance_def)
  ultimately show ?case by metis
next
  case (Suc n)
  let ?s1 = "s\<lparr>currentDuration := elapsed s w\<rparr>"
  let ?w1 = "w\<lparr>read_cnt := Suc (read_cnt w), micros_cnt := Suc (micros_cnt w)\<rparr>"
  from Suc.prems(3) have p0: "\<not> echoActiveAt s w 0"
    "clockAt w 0 - startMeasureTime s \<le> timeoutForPulseStart s" by auto
  then have r: "refreshState_r2 s w = (?s1, ?w1)"
    using Suc.prems(2) by (simp add: refreshState_r2_waiting echoActiveAt_0 clockAt_0)
  have step: "awaitFinished_r2 (s, w) = awaitFinished_r2 (?s1, ?w1)"
    using awaitFinished_r2_step [OF Suc.prems(1) r] Suc.prems(2) by (simp add: isMeasuring_def)
  have rest: "\<forall>j<n. \<not> echoActiveAt ?s1 ?w1 j \<and>
           clockAt ?w1 j - startMeasureTime ?s1 \<le> timeoutForPulseStart ?s1"
  proof (intro allI impI)
    fix j assume "j < n"
    then have "Suc j < Suc n" by simp
    with Suc.prems(3) have "\<not> echoActiveAt s w (Suc j) \<and>
           clockAt w (Suc j) - startMeasureTime s \<le> timeoutForPulseStart s" by blast
    moreover have "echoActiveAt ?s1 ?w1 j = echoActiveAt s w (Suc j)"
      by (simp add: echoActiveAt_def echoLevel_def digitalRead_def)
    moreover have "clockAt ?w1 j = clockAt w (Suc j)" by (simp add: clockAt_def)
    ultimately show "\<not> echoActiveAt ?s1 ?w1 j \<and>
           clockAt ?w1 j - startMeasureTime ?s1 \<le> timeoutForPulseStart ?s1" by simp
  qed
  from Suc.IH [of ?s1 ?w1, OF _ _ rest] Suc.prems(1,2)
  obtain d where "awaitFinished_r2 (?s1, ?w1) =
      awaitFinished_r2 (?s1\<lparr>currentDuration := d\<rparr>, advance n n ?w1)" by auto
  moreover have "?s1\<lparr>currentDuration := d\<rparr> = s\<lparr>currentDuration := d\<rparr>" by simp
  moreover have "advance n n ?w1 = advance (Suc n) (Suc n) w" by (simp add: advance_def)
  ultimately show ?case using step by metis
qed

lemma measuring_polls_r2:
  assumes "isAttached_flag s" and "currentState s = Measuring"
    and "\<forall>i<m. echoActiveAt s w i \<and>
           clockAt w i - startMeasureTime s \<le> maxPulseDuration s"
  shows "\<exists>d. awaitFinished_r2 (s, w) =
           awaitFinished_r2 (s\<lparr>currentDuration := d\<rparr>, advance m m w)"
  using assms
proof (induction m arbitrary: s w)
  case 0
  have "s\<lparr>currentDuration := currentDuration s\<rparr> = s" by simp
  moreover have "advance 0 0 w = w" by (simp add: advance_def)
  ultimately show ?case by metis
next
  case (Suc m)
  let ?s1 = "s\<lparr>currentDuration := elapsed s w\<rparr>"
  let ?w1 = "w\<lparr>read_cnt := Suc (read_cnt w), micros_cnt := Suc (micros_cnt w)\<rparr>"
  from Suc.prems(3) have p0: "echoActiveAt s w 0"
    "clockAt w 0 - startMeasureTime s \<le> maxPulseDuration s" by auto
  then have r: "refreshState_r2 s w = (?s1, ?w1)"
    using Suc.prems(2) by (simp add: refreshState_r2_measuring echoActiveAt_0 clockAt_0)
  have step: "awaitFinished_r2 (s, w) = awaitFinished_r2 (?s1, ?w1)"
    using awaitFinished_r2_step [OF Suc.prems(1) r] Suc.prems(2) by (simp add: isMeasuring_def)
  have rest: "\<forall>i<m. echoActiveAt ?s1 ?w1 i \<and>
           clockAt ?w1 i - startMeasureTime ?s1 \<le> maxPulseDuration ?s1"
  proof (intro allI impI)
    fix i assume "i < m"
    then have "Suc i < Suc m" by simp
    with Suc.prems(3) have "echoActiveAt s w (Suc i) \<and>
           clockAt w (Suc i) - startMeasureTime s \<le> maxPulseDuration s" by blast
    moreover have "echoActiveAt ?s1 ?w1 i = echoActiveAt s w (Suc i)"
      by (simp add: echoActiveAt_def echoLevel_def digitalRead_def)
    moreover have "clockAt ?w1 i = clockAt w (Suc i)" by (simp add: clockAt_def)
    ultimately show "echoActiveAt ?s1 ?w1 i \<and>
           clockAt ?w1 i - startMeasureTime ?s1 \<le> maxPulseDuration ?s1" by simp
  qed
  from Suc.IH [of ?s1 ?w1, OF _ _ rest] Suc.prems(1,2)
  obtain d where "awaitFinished_r2 (?s1, ?w1) =
      awaitFinished_r2 (?s1\<lparr>currentDuration := d\<rparr>, advance m m ?w1)" by auto
  moreover have "?s1\<lparr>currentDuration := d\<rparr> = s\<lparr>currentDuration := d\<rparr>" by simp
  moreover have "advance m m ?w1 = advance (Suc m) (Suc m) w" by (simp add: advance_def)
  ultimately show ?case using step by metis
qed

lemma measuring_to_finished_r2:
  assumes att: "isAttached_flag s" and st: "currentState s = Measuring"
    and hold: "\<forall>i<m. echoActiveAt s w i \<and>
           clockAt w i - startMeasureTime s \<le> maxPulseDuration s"
    and fall: "\<not> echoActiveAt s w m"
  shows "awaitFinished_r2 (s, w) =
           Some (s\<lparr>currentDuration := clockAt w m - startMeasureTime s,
                   currentState := FinishedMeasure\<rparr>,
                 advance (Suc m) (Suc m) w)"
proof -
  from measuring_polls_r2 [OF att st hold] obtain d where
    a: "awaitFinished_r2 (s, w) = awaitFinished_r2 (s\<lparr>currentDuration := d\<rparr>, advance m m w)"
    by blast
  let ?s = "s\<lparr>currentDuration := d\<rparr>" and ?w = "advance m m w"
  have lvl: "echoLevel ?s ?w \<noteq> echoActiveState ?s"
    using fall by (simp add: echoActiveAt_def echoLevel_def digitalRead_def advance_def)
  have el: "elapsed ?s ?w = clockAt w m - startMeasureTime s"
    by (simp add: elapsed_def clockAt_def micros_def advance_def)
  have r: "refreshState_r2 ?s ?w =
      (s\<lparr>currentDuration := clockAt w m - startMeasureTime s, currentState := FinishedMeasure\<rparr>,
       advance (Suc m) (Suc m) w)"
    using st lvl el by (simp add: refreshState_r2_measuring advance_def)
  have "isAttached_flag ?s" using att by simp
  from awaitFinished_r2_step [OF this r] a show ?thesis by (simp add: isMeasuring_def)
qed

lemma waiting_to_finished_r2:
  assumes att: "isAttached_flag s" and st: "currentState s = WaitingForPulse"
    and wait: "\<forall>j<n. \<not> echoActiveAt s w j \<and>
           clockAt w j - startMeasureTime s \<le> timeoutForPulseStart s"
    and rise: "echoActiveAt s w n"
    and hold: "\<forall>i<m. echoActiveAt s w (Suc n + i) \<and>
           clockAt w (n + 2 + i) - clockAt w (Suc n) \<le> maxPulseDuration s"
    and fall: "\<not> echoActiveAt s w (Suc n + m)"
  shows "awaitFinished_r2 (s, w) =
           Some (s\<lparr>currentDuration := clockAt w (n + 2 + m) - clockAt w (Suc n),
                   currentState := FinishedMeasure,
                   startMeasureTime := clockAt w (Suc n)\<rparr>,
                 advance (n + 2 + m) (n + 3 + m) w)"
proof -
  from waiting_polls_r2 [OF att st wait] obtain d where
    a: "awaitFinished_r2 (s, w) = awaitFinished_r2 (s\<lparr>currentDuration := d\<rparr>, advance n n w)"
    by blast
  let ?s = "s\<lparr>currentDuration := d\<rparr>" and ?w = "advance n n w"
  let ?sM = "s\<lparr>currentDuration := 0, currentState := Measuring,
               startMeasureTime := clockAt w (Suc n)\<rparr>"
  let ?wM = "advance (Suc n) (n + 2) w"
  have lvl: "echoLevel ?s ?w = echoActiveState ?s"
    using rise by (simp add: echoActiveAt_def echoLevel_def digitalRead_def advance_def)
  have r: "refreshState_r2 ?s ?w = (?sM, ?wM)"
    using st lvl by (simp add: refreshState_r2_waiting advance_def clockAt_def)
  have "isAttached_flag ?s" using att by simp
  from awaitFinished_r2_step [OF this r] a
  have b: "awaitFinished_r2 (s, w) = awaitFinished_r2 (?sM, ?wM)" by (simp add: isMeasuring_def)
  have holdM: "\<forall>i<m. echoActiveAt ?sM ?wM i \<and>
           clockAt ?wM i - startMeasureTime ?sM \<le> maxPulseDuration ?sM"
    using hold
    by (simp add: echoActiveAt_def echoLevel_def digitalRead_def advance_def clockAt_def
        add.assoc add.commute add.left_commute)
  have fallM: "\<not> echoActiveAt ?sM ?wM m"
    using fall
    by (simp add: echoActiveAt_def echoLevel_def digitalRead_def advance_def add.assoc)
  have "awaitFinished_r2 (?sM, ?wM) =
          Some (?sM\<lparr>currentDuration := clockAt ?wM m - startMeasureTime ?sM,
                   currentState := FinishedMeasure\<rparr>,
                 advance (Suc m) (Suc m) ?wM)"
    by (rule measuring_to_finished_r2 [OF _ _ holdM fallM]) (simp_all add: att)
  with b show ?thesis
    by (simp add: advance_def clockAt_def add.assoc add.commute add.left_commute)
qed

lemma startMeasure_r2_triggered:
  assumes "isAttached_flag s" and "\<not> isMeasuring s" and "\<not> echoActiveAt s w 0"
  shows "startMeasure_r2 s w =
    refreshState_r2
      (s\<lparr>currentState := WaitingForPulse, currentDuration := 0,
         startMeasureTime := clockAt w 0\<rparr>)
      (w\<lparr>read_cnt := Suc (read_cnt w),
         outputs := outputs w @
           [PortWrite (trigPin s) (trigActiveState s = HIGH),
            DelayMicroseconds (trigPulseWidth s),
            PortWrite (trigPin s) (getOppositeStateFor (trigActiveState s) = HIGH)],
         micros_cnt := Suc (micros_cnt w)\<rparr>)"
  using assms
  by (simp add: startMeasure_r2_def isAttached_r2_def isMeasuring_def echoActiveAt_0
      echoLevel_def hw_defs time_defs clockAt_def advance_def Let_def)

lemma first_poll_still_measuring_r2:
  assumes "currentState s = WaitingForPulse"
    and "echoActiveAt s w 0 \<or> clockAt w 0 - startMeasureTime s \<le> timeoutForPulseStart s"
  shows "isMeasuring (fst (refreshState_r2 s w))"
  using assms
  by (auto simp add: refreshState_r2_waiting echoActiveAt_0 clockAt_0 isMeasuring_def)

lemma pulse_measured_r2:
  assumes att: "isAttached_r2 s" and idle: "\<not> isMeasuring s"
    and pre: "\<not> echoActiveAt s w 0"
    and wait: "\<forall>j<n. \<not> echoActiveAt s w (Suc j) \<and>
           clockAt w (Suc j) - clockAt w 0 \<le> timeoutForPulseStart s"
    and rise: "echoActiveAt s w (Suc n)"
    and hold: "\<forall>i<m. echoActiveAt s w (n + 2 + i) \<and>
           clockAt w (n + 3 + i) - clockAt w (n + 2) \<le> maxPulseDuration s"
    and fall: "\<not> echoActiveAt s w (n + 2 + m)"
  shows "\<exists>s' w'. measureDistance_r2 s w = Some (getMeasuredDistance s', s', w') \<and>
           currentState s' = FinishedMeasure \<and> usPerCm s' = usPerCm s \<and>
           currentDuration s' = clockAt w (n + 3 + m) - clockAt w (n + 2)"
proof -
  let ?s0 = "s\<lparr>currentState := WaitingForPulse, currentDuration := 0,
         startMeasureTime := clockAt w 0\<rparr>"
  let ?w0 = "w\<lparr>read_cnt := Suc (read_cnt w),
         outputs := outputs w @
           [PortWrite (trigPin s) (trigActiveState s = HIGH),
            DelayMicroseconds (trigPulseWidth s),
            PortWrite (trigPin s) (getOppositeStateFor (trigActiveState s) = HIGH)],
         micros_cnt := Suc (micros_cnt w)\<rparr>"
  have flag: "isAttached_flag s" using att by (simp add: isAttached_r2_def)
  have start: "startMeasure_r2 s w = refreshState_r2 ?s0 ?w0"
    by (rule startMeasure_r2_triggered [OF flag idle pre])
  have e: "\<And>k. echoActiveAt ?s0 ?w0 k = echoActiveAt s w (Suc k)"
    by (simp add: echoActiveAt_def echoLevel_def digitalRead_def advance_def)
  have c: "\<And>k. clockAt ?w0 k = clockAt w (Suc k)"
    by (simp add: clockAt_def advance_def)
  have wait0: "\<forall>j<n. \<not> echoActiveAt ?s0 ?w0 j \<and>
           clockAt ?w0 j - startMeasureTime ?s0 \<le> timeoutForPulseStart ?s0"
    using wait by (simp add: e c)
  have rise0: "echoActiveAt ?s0 ?w0 n" using rise by (simp add: e)
  have hold0: "\<forall>i<m. echoActiveAt ?s0 ?w0 (Suc n + i) \<and>
           clockAt ?w0 (n + 2 + i) - clockAt ?w0 (Suc n) \<le> maxPulseDuration ?s0"
    using hold by (simp add: e c numeral_3_eq_3 numeral_2_eq_2)
  have fall0: "\<not> echoActiveAt ?s0 ?w0 (Suc n + m)" using fall by (simp add: e numeral_2_eq_2)
  have first: "echoActiveAt ?s0 ?w0 0 \<or>
      clockAt ?w0 0 - startMeasureTime ?s0 \<le> timeoutForPulseStart ?s0"
  proof (cases n)
    case 0
    with rise0 show ?thesis by simp
  next
    case (Suc n')
    with wait0 show ?thesis by auto
  qed
  obtain s1 w1 where r: "refreshState_r2 ?s0 ?w0 = (s1, w1)"
    by (cases "refreshState_r2 ?s0 ?w0")
  have "isMeasuring (fst (refreshState_r2 ?s0 ?w0))"
    by (rule first_poll_still_measuring_r2 [OF _ first]) simp
  with r have m1: "isMeasuring s1" by simp
  have "isAttached_flag ?s0" using flag by simp
  from awaitFinished_r2_step [OF this r] m1
  have loop: "awaitFinished_r2 (s1, w1) = awaitFinished_r2 (?s0, ?w0)" by simp
  have fin: "awaitFinished_r2 (?s0, ?w0) =
           Some (?s0\<lparr>currentDuration := clockAt ?w0 (n + 2 + m) - clockAt ?w0 (Suc n),
                   currentState := FinishedMeasure,
                   startMeasureTime := clockAt ?w0 (Suc n)\<rparr>,
                 advance (n + 2 + m) (n + 3 + m) ?w0)"
    by (rule waiting_to_finished_r2 [OF _ _ wait0 rise0 hold0 fall0]) (simp_all add: flag)
  show ?thesis
    using start r loop fin
    by (simp add: measureDistance_r2_def c numeral_3_eq_3 numeral_2_eq_2)
qed

subsection \<open>Revision 1 on a well-behaved echo\<close>

lemma later_refl: "later 0 0 w w"
  by (simp add: later_def)

lemma later_trans: "later r c w w' \<Longrightarrow> later r' c' w' w'' \<Longrightarrow> later (r + r') (c + c') w w''"
  by (simp add: later_def)

lemma echoActiveAt_later:
  "later r c w w' \<Longrightarrow> echoPin s' = echoPin s \<Longrightarrow> echoActiveState s' = echoActiveState s \<Longrightarrow>
   echoActiveAt s' w' k = echoActiveAt s w (r + k)"
  by (simp add: later_def echoActiveAt_def echoLevel_def digitalRead_def add.assoc)

lemma clockAt_later: "later r c w w' \<Longrightarrow> clockAt w' k = clockAt w (c + k)"
  by (simp add: later_def clockAt_def add.assoc)

lemma awaitFinished_r1_step:
  assumes "isAttached_r1 s" and "refreshState_r1 s w = (s', w')"
  shows "awaitFinished_r1 (x, s, w) =
           (if isMeasuring s' then awaitFinished_r1 (x, s', w')
            else (case getMeasuredDistance s' of
                    Inl e \<Rightarrow> Some (Inl e)
                  | Inr d \<Rightarrow> Some (Inr (d, s', w'))))"
  by (subst awaitFinished_r1.simps) (simp add: finishedMeasure_r1_def assms split: sum.splits)

lemma idle_poll_waiting_r1:
  assumes "currentState s = WaitingForPulse" and "\<not> echoActiveAt s w 0"
    and "clockAt w 0 - startMeasureTime s \<le> timeoutForPulseStart s"
  shows "\<exists>w'. later 1 1 w w' \<and>
           refreshState_r1 s w = (s\<lparr>currentDuration := elapsed s w\<rparr>, w')"
proof -
  from assms(3) have "\<not> timeoutForPulseStart s < elapsed s w"
    by (simp add: clockAt_0 not_less)
  with assms(1,2) show ?thesis
    by (simp add: refreshState_r1_waiting echoActiveAt_0 later_def)
qed

lemma idle_poll_measuring_r1:
  assumes "currentState s = Measuring" and "echoActiveAt s w 0"
    and "clockAt w 0 - startMeasureTime s \<le> maxPulseDuration s"
  shows "\<exists>w'. later 1 1 w w' \<and>
           refreshState_r1 s w = (s\<lparr>currentDuration := elapsed s w\<rparr>, w')"
proof -
  from assms(3) have "\<not> maxPulseDuration s < elapsed s w"
    by (simp add: clockAt_0 not_less)
  with assms(1,2) show ?thesis
    by (simp add: refreshState_r1_measuring echoActiveAt_0 later_def)
qed

lemma rise_poll_r1:
  assumes "currentState s = WaitingForPulse" and "echoActiveAt s w 0"
  shows "\<exists>w'. later 1 2 w w' \<and>
           refreshState_r1 s w =
             (s\<lparr>currentDuration := 0, currentState := Measuring,
                startMeasureTime := clockAt w 1\<rparr>, w')"
  using assms
  by (simp add: refreshState_r1_waiting echoActiveAt_0 clockAt_def later_def)

lemma fall_poll_r1:
  assumes "currentState s = Measuring" and "\<not> echoActiveAt s w 0"
  shows "\<exists>w'. later 1 1 w w' \<and>
           refreshState_r1 s w =
             (s\<lparr>currentDuration := clockAt w 0 - startMeasureTime s,
                currentState := FinishedMeasure\<rparr>, w')"
  using assms
  by (simp add: refreshState_r1_measuring echoActiveAt_0 clockAt_0 [symmetric] later_def)

lemma waiting_polls_r1:
  assumes "isAttached_r1 s" and "currentState s = WaitingForPulse"
    and "\<forall>j<n. \<not> echoActiveAt s w j \<and>
           clockAt w j - startMeasureTime s \<le> timeoutForPulseStart s"
  shows "\<exists>d w'. later n n w w' \<and>
           awaitFinished_r1 (x, s, w) = awaitFinished_r1 (x, s\<lparr>currentDuration := d\<rparr>, w')"
  using assms
proof (induction n arbitrary: s w)
  case 0
  have "awaitFinished_r1 (x, s, w) =
        awaitFinished_r1 (x, s\<lparr>currentDuration := currentDuration s\<rparr>, w)" by simp
  with later_refl show ?case by blast
next
  case (Suc n)
  let ?s1 = "s\<lparr>currentDuration := elapsed s w\<rparr>"
  from Suc.prems(3) have p0: "\<not> echoActiveAt s w 0"
    "clockAt w 0 - startMeasureTime s \<le> timeoutForPulseStart s" by auto
  from idle_poll_waiting_r1 [OF Suc.prems(2) p0] obtain w1 where
    l1: "later 1 1 w w1" and r: "refreshState_r1 s w = (?s1, w1)" by blast
  have step: "awaitFinished_r1 (x, s, w) = awaitFinished_r1 (x, ?s1, w1)"
    using awaitFinished_r1_step [OF Suc.prems(1) r] Suc.prems(2) by (simp add: isMeasuring_def)
  have rest: "\<forall>j<n. \<not> echoActiveAt ?s1 w1 j \<and>
           clockAt w1 j - startMeasureTime ?s1 \<le> timeoutForPulseStart ?s1"
  proof (intro allI impI)
    fix j assume "j < n"
    then have "Suc j < Suc n" by simp
    with Suc.prems(3) have "\<not> echoActiveAt s w (Suc j) \<and>
           clockAt w (Suc j) - startMeasureTime s \<le> timeoutForPulseStart s" by blast
    moreover have "echoActiveAt ?s1 w1 j = echoActiveAt s w (Suc j)"
      using echoActiveAt_later [OF l1, of ?s1 s j] by simp
    moreover have "clockAt w1 j = clockAt w (Suc j)"
      using clockAt_later [OF l1, of j] by simp
    ultimately show "\<not> echoActiveAt ?s1 w1 j \<and>
           clockAt w1 j - startMeasureTime ?s1 \<le> timeoutForPulseStart ?s1" by simp
  qed
  have att1: "isAttached_r1 ?s1" using Suc.prems(1) by (simp add: isAttached_r1_def)
  have st1: "currentState ?s1 = WaitingForPulse" using Suc.prems(2) by simp
  from Suc.IH [OF att1 st1 rest] obtain d w' where
    l2: "later n n w1 w'" and
    eq: "awaitFinished_r1 (x, ?s1, w1) = awaitFinished_r1 (x, ?s1\<lparr>currentDuration := d\<rparr>, w')"
    by blast
  from later_trans [OF l1 l2] have "later (Suc n) (Suc n) w w'" by simp
  moreover from step eq
  have "awaitFinished_r1 (x, s, w) = awaitFinished_r1 (x, s\<lparr>currentDuration := d\<rparr>, w')"
    by simp
  ultimately show ?case by blast
qed

lemma measuring_polls_r1:
  assumes "isAttached_r1 s" and "currentState s = Measuring"
    and "\<forall>i<m. echoActiveAt s w i \<and>
           clockAt w i - startMeasureTime s \<le> maxPulseDuration s"
  shows "\<exists>d w'. later m m w w' \<and>
           awaitFinished_r1 (x, s, w) = awaitFinished_r1 (x, s\<lparr>currentDuration := d\<rparr>, w')"
  using assms
proof (induction m arbitrary: s w)
  case 0
  have "awaitFinished_r1 (x, s, w) =
        awaitFinished_r1 (x, s\<lparr>currentDuration := currentDuration s\<rparr>, w)" by simp
  with later_refl show ?case by blast
next
  case (Suc m)
  let ?s1 = "s\<lparr>currentDuration := elapsed s w\<rparr>"
  from Suc.prems(3) have p0: "echoActiveAt s w 0"
    "clockAt w 0 - startMeasureTime s \<le> maxPulseDuration s" by auto
  from idle_poll_measuring_r1 [OF Suc.prems(2) p0] obtain w1 where
    l1: "later 1 1 w w1" and r: "refreshState_r1 s w = (?s1, w1)" by blast
  have step: "awaitFinished_r1 (x, s, w) = awaitFinished_r1 (x, ?s1, w1)"
    using awaitFinished_r1_step [OF Suc.prems(1) r] Suc.prems(2) by (simp add: isMeasuring_def)
  have rest: "\<forall>i<m. echoActiveAt ?s1 w1 i \<and>
           clockAt w1 i - startMeasureTime ?s1 \<le> maxPulseDuration ?s1"
  proof (intro allI impI)
    fix i assume "i < m"
    then have "Suc i < Suc m" by simp
    with Suc.prems(3) have "echoActiveAt s w (Suc i) \<and>
           clockAt w (Suc i) - startMeasureTime s \<le> maxPulseDuration s" by blast
    moreover have "echoActiveAt ?s1 w1 i = echoActiveAt s w (Suc i)"
      using echoActiveAt_later [OF l1, of ?s1 s i] by simp
    moreover have "clockAt w1 i = clockAt w (Suc i)"
      using clockAt_later [OF l1, of i] by simp
    ultimately show "echoActiveAt ?s1 w1 i \<and>
           clockAt w1 i - startMeasureTime ?s1 \<le> maxPulseDuration ?s1" by simp
  qed
  have att1: "isAttached_r1 ?s1" using Suc.prems(1) by (simp add: isAttached_r1_def)
  have st1: "currentState ?s1 = Measuring" using Suc.prems(2) by simp
  from Suc.IH [OF att1 st1 rest] obtain d w' where
    l2: "later m m w1 w'" and
    eq: "awaitFinished_r1 (x, ?s1, w1) = awaitFinished_r1 (x, ?s1\<lparr>currentDuration := d\<rparr>, w')"
    by blast
  from later_trans [OF l1 l2] have "later (Suc m) (Suc m) w w'" by simp
  moreover from step eq
  have "awaitFinished_r1 (x, s, w) = awaitFinished_r1 (x, s\<lparr>currentDuration := d\<rparr>, w')"
    by simp
  ultimately show ?case by blast
qed

lemma measuring_to_finished_r1:
  assumes att: "isAttached_r1 s" and st: "currentState s = Measuring"
    and nz: "usPerCm s \<noteq> 0"
    and hold: "\<forall>i<m. echoActiveAt s w i \<and>
           clockAt w i - startMeasureTime s \<le> maxPulseDuration s"
    and fall: "\<not> echoActiveAt s w m"
  shows "\<exists>w'. awaitFinished_r1 (x, s, w) =
           Some (Inr ((clockAt w m - startMeasureTime s) div scast (usPerCm s),
                      s\<lparr>currentDuration := clockAt w m - startMeasureTime s,
                        currentState := FinishedMeasure\<rparr>, w'))"
proof -
  from measuring_polls_r1 [OF att st hold] obtain d w1 where
    l1: "later m m w w1" and
    a: "awaitFinished_r1 (x, s, w) = awaitFinished_r1 (x, s\<lparr>currentDuration := d\<rparr>, w1)"
    by blast
  let ?s = "s\<lparr>currentDuration := d\<rparr>"
  let ?sF = "s\<lparr>currentDuration := clockAt w m - startMeasureTime s,
                currentState := FinishedMeasure\<rparr>"
  have f: "\<not> echoActiveAt ?s w1 0" using fall echoActiveAt_later [OF l1, of ?s s 0] by simp
  have c: "clockAt w1 0 = clockAt w m" using clockAt_later [OF l1, of 0] by simp
  from fall_poll_r1 [of ?s w1, OF _ f] st c obtain w' where
    r: "refreshState_r1 ?s w1 = (?sF, w')" by auto
  have "isAttached_r1 ?s" using att by (simp add: isAttached_r1_def)
  from awaitFinished_r1_step [OF this r, of x] a nz show ?thesis
    by (simp add: isMeasuring_def getMeasuredDistance_def convertCurrentDurationToDistance_def)
qed

lemma waiting_to_finished_r1:
  assumes att: "isAttached_r1 s" and st: "currentState s = WaitingForPulse"
    and nz: "usPerCm s \<noteq> 0"
    and wait: "\<forall>j<n. \<not> echoActiveAt s w j \<and>
           clockAt w j - startMeasureTime s \<le> timeoutForPulseStart s"
    and rise: "echoActiveAt s w n"
    and hold: "\<forall>i<m. echoActiveAt s w (Suc n + i) \<and>
           clockAt w (n + 2 + i) - clockAt w (Suc n) \<le> maxPulseDuration s"
    and fall: "\<not> echoActiveAt s w (Suc n + m)"
  shows "\<exists>w'. awaitFinished_r1 (x, s, w) =
           Some (Inr ((clockAt w (n + 2 + m) - clockAt w (Suc n)) div scast (usPerCm s),
                      s\<lparr>currentDuration := clockAt w (n + 2 + m) - clockAt w (Suc n),
                        currentState := FinishedMeasure,
                        startMeasureTime := clockAt w (Suc n)\<rparr>, w'))"
proof -
  from waiting_polls_r1 [OF att st wait] obtain d w1 where
    l1: "later n n w w1" and
    a: "awaitFinished_r1 (x, s, w) = awaitFinished_r1 (x, s\<lparr>currentDuration := d\<rparr>, w1)"
    by blast
  let ?s = "s\<lparr>currentDuration := d\<rparr>"
  let ?sM = "s\<lparr>currentDuration := 0, currentState := Measuring,
               startMeasureTime := clockAt w (Suc n)\<rparr>"
  have ri: "echoActiveAt ?s w1 0" using rise echoActiveAt_later [OF l1, of ?s s 0] by simp
  have c1: "clockAt w1 1 = clockAt w (Suc n)" using clockAt_later [OF l1, of 1] by simp
  from rise_poll_r1 [of ?s w1, OF _ ri] st c1 obtain wM where
    l2: "later 1 2 w1 wM" and r: "refreshState_r1 ?s w1 = (?sM, wM)" by auto
  have "isAttached_r1 ?s" using att by (simp add: isAttached_r1_def)
  from awaitFinished_r1_step [OF this r, of x] a
  have b: "awaitFinished_r1 (x, s, w) = awaitFinished_r1 (x, ?sM, wM)"
    by (simp add: isMeasuring_def)
  from later_trans [OF l1 l2] have lM: "later (Suc n) (n + 2) w wM" by simp
  have holdM: "\<forall>i<m. echoActiveAt ?sM wM i \<and>
           clockAt wM i - startMeasureTime ?sM \<le> maxPulseDuration ?sM"
    using hold echoActiveAt_later [OF lM, of ?sM s] clockAt_later [OF lM] by simp
  have fallM: "\<not> echoActiveAt ?sM wM m"
    using fall echoActiveAt_later [OF lM, of ?sM s m] by simp
  have attM: "isAttached_r1 ?sM" using att by (simp add: isAttached_r1_def)
  have nzM: "usPerCm ?sM \<noteq> 0" using nz by simp
  from measuring_to_finished_r1 [OF attM _ nzM holdM fallM, of x] obtain w' where
    "awaitFinished_r1 (x, ?sM, wM) =
       Some (Inr ((clockAt wM m - startMeasureTime ?sM) div scast (usPerCm ?sM),
                  ?sM\<lparr>currentDuration := clockAt wM m - startMeasureTime ?sM,
                       currentState := FinishedMeasure\<rparr>, w'))" by auto
  with b clockAt_later [OF lM, of m] show ?thesis by simp
qed

lemma startMeasure_r1_triggered:
  assumes "isAttached_r1 s" and "\<not> isMeasuring s"
  shows "\<exists>w0. later 0 1 w w0 \<and>
    startMeasure_r1 s w =
      refreshState_r1
        (s\<lparr>currentState := WaitingForPulse, currentDuration := 0,
           startMeasureTime := clockAt w 0\<rparr>) w0"
proof -
  let ?w0 = "w\<lparr>outputs := outputs w @
      [DigitalWrite (trigPin s) (trigActiveState s),
       DelayMicroseconds (trigPulseWidth s),
       DigitalWrite (trigPin s) (getOppositeStateFor (trigActiveState s)),
       DigitalWrite 11 (getOppositeStateFor (echoActiveState s)),
       DigitalWrite 8 LOW],
     micros_cnt := Suc (micros_cnt w)\<rparr>"
  have "later 0 1 w ?w0" by (simp add: later_def)
  moreover have "startMeasure_r1 s w =
      refreshState_r1
        (s\<lparr>currentState := WaitingForPulse, currentDuration := 0,
           startMeasureTime := clockAt w 0\<rparr>) ?w0"
    using assms
    by (simp add: startMeasure_r1_def isMeasuring_def hw_defs time_defs clockAt_def Let_def)
  ultimately show ?thesis by blast
qed

lemma first_poll_still_measuring_r1:
  assumes "currentState s = WaitingForPulse"
    and "echoActiveAt s w 0 \<or> clockAt w 0 - startMeasureTime s \<le> timeoutForPulseStart s"
  shows "isMeasuring (fst (refreshState_r1 s w))"
  using assms
  by (auto simp add: refreshState_r1_waiting echoActiveAt_0 clockAt_0 isMeasuring_def)

lemma pulse_measured_r1:
  assumes att: "isAttached_r1 s" and idle: "\<not> isMeasuring s" and nz: "usPerCm s \<noteq> 0"
    and wait: "\<forall>j<n. \<not> echoActiveAt s w j \<and>
           clockAt w (Suc j) - clockAt w 0 \<le> timeoutForPulseStart s"
    and rise: "echoActiveAt s w n"
    and hold: "\<forall>i<m. echoActiveAt s w (Suc n + i) \<and>
           clockAt w (n + 3 + i) - clockAt w (n + 2) \<le> maxPulseDuration s"
    and fall: "\<not> echoActiveAt s w (Suc n + m)"
  shows "\<exists>s' w'. measureDistance_r1 d0 s w =
             Some (Inr ((clockAt w (n + 3 + m) - clockAt w (n + 2)) div scast (usPerCm s),
                        s', w')) \<and>
           currentState s' = FinishedMeasure"
proof -
  let ?s0 = "s\<lparr>currentState := WaitingForPulse, currentDuration := 0,
         startMeasureTime := clockAt w 0\<rparr>"
  from startMeasure_r1_triggered [OF att idle] obtain w0 where
    l0: "later 0 1 w w0" and start: "startMeasure_r1 s w = refreshState_r1 ?s0 w0" by blast
  have e: "\<And>k. echoActiveAt ?s0 w0 k = echoActiveAt s w k"
    using echoActiveAt_later [OF l0, of ?s0 s] by simp
  have c: "\<And>k. clockAt w0 k = clockAt w (Suc k)"
    using clockAt_later [OF l0] by simp
  have wait0: "\<forall>j<n. \<not> echoActiveAt ?s0 w0 j \<and>
           clockAt w0 j - startMeasureTime ?s0 \<le> timeoutForPulseStart ?s0"
    using wait by (simp add: e c)
  have rise0: "echoActiveAt ?s0 w0 n" using rise by (simp add: e)
  have hold0: "\<forall>i<m. echoActiveAt ?s0 w0 (Suc n + i) \<and>
           clockAt w0 (n + 2 + i) - clockAt w0 (Suc n) \<le> maxPulseDuration ?s0"
    using hold by (simp add: e c numeral_3_eq_3 numeral_2_eq_2)
  have fall0: "\<not> echoActiveAt ?s0 w0 (Suc n + m)" using fall by (simp add: e)
  have first: "echoActiveAt ?s0 w0 0 \<or>
      clockAt w0 0 - startMeasureTime ?s0 \<le> timeoutForPulseStart ?s0"
  proof (cases n)
    case 0
    with rise0 show ?thesis by simp
  next
    case (Suc n')
    with wait0 show ?thesis by auto
  qed
  obtain s1 w1 where r: "refreshState_r1 ?s0 w0 = (s1, w1)"
    by (cases "refreshState_r1 ?s0 w0")
  have "isMeasuring (fst (refreshState_r1 ?s0 w0))"
    by (rule first_poll_still_measuring_r1 [OF _ first]) simp
  with r have m1: "isMeasuring s1" by simp
  have att0: "isAttached_r1 ?s0" using att by (simp add: isAttached_r1_def)
  from awaitFinished_r1_step [OF att0 r, of d0] m1
  have loop: "awaitFinished_r1 (d0, s1, w1) = awaitFinished_r1 (d0, ?s0, w0)" by simp
  have nz0: "usPerCm ?s0 \<noteq> 0" using nz by simp
  from waiting_to_finished_r1 [OF att0 _ nz0 wait0 rise0 hold0 fall0, of d0] obtain w' where
    "awaitFinished_r1 (d0, ?s0, w0) =
           Some (Inr ((clockAt w0 (n + 2 + m) - clockAt w0 (Suc n)) div scast (usPerCm ?s0),
                      ?s0\<lparr>currentDuration := clockAt w0 (n + 2 + m) - clockAt w0 (Suc n),
                        currentState := FinishedMeasure,
                        startMeasureTime := clockAt w0 (Suc n)\<rparr>, w'))" by auto
  with start r loop show ?thesis
    by (simp add: measureDistance_r1_def c numeral_3_eq_3 numeral_2_eq_2)
qed

subsection \<open>The measured distance\<close>

lemma unat_distance:
  fixes d :: ulong
  assumes "0 < sint (usPerCm s)"
  shows "unat (d div scast (usPerCm s)) = unat d div nat (sint (usPerCm s))"
  using assms by (simp only: unat_div scast_pos_unat)

lemma pulse_distance_r1:
  assumes "isAttached_r1 s" and "\<not> isMeasuring s" and "0 < sint (usPerCm s)"
    and "wellBehavedEcho s w 0 n m"
  shows "\<exists>dist s' w'. measureDistance_r1 d0 s w = Some (Inr (dist, s', w')) \<and>
           currentState s' = FinishedMeasure \<and>
           unat dist = unat (pulseWidth w n m) div nat (sint (usPerCm s))"
proof -
  from assms(3) have nz: "usPerCm s \<noteq> 0" by auto
  from assms(4) have
    wait: "\<forall>j<n. \<not> echoActiveAt s w j \<and>
           clockAt w (Suc j) - clockAt w 0 \<le> timeoutForPulseStart s"
    and rise: "echoActiveAt s w n"
    and hold: "\<forall>i<m. echoActiveAt s w (Suc n + i) \<and>
           clockAt w (n + 3 + i) - clockAt w (n + 2) \<le> maxPulseDuration s"
    and fall: "\<not> echoActiveAt s w (Suc n + m)"
    by (simp_all add: wellBehavedEcho_def)
  from pulse_measured_r1 [OF assms(1,2) nz wait rise hold fall, of d0]
  show ?thesis using unat_distance [OF assms(3)] by (auto simp add: pulseWidth_def)
qed

lemma pulse_distance_r2:
  assumes "isAttached_r2 s" and "\<not> isMeasuring s" and "0 < sint (usPerCm s)"
    and "\<not> echoActiveAt s w 0" and "wellBehavedEcho s w 1 n m"
  shows "\<exists>dist s' w'. measureDistance_r2 s w = Some (Inr dist, s', w') \<and>
           currentState s' = FinishedMeasure \<and>
           unat dist = unat (pulseWidth w n m) div nat (sint (usPerCm s))"
proof -
  from assms(3) have nz: "usPerCm s \<noteq> 0" by auto
  from assms(5) have
    wait: "\<forall>j<n. \<not> echoActiveAt s w (Suc j) \<and>
           clockAt w (Suc j) - clockAt w 0 \<le> timeoutForPulseStart s"
    and rise: "echoActiveAt s w (Suc n)"
    and hold: "\<forall>i<m. echoActiveAt s w (n + 2 + i) \<and>
           clockAt w (n + 3 + i) - clockAt w (n + 2) \<le> maxPulseDuration s"
    and fall: "\<not> echoActiveAt s w (n + 2 + m)"
    by (simp_all add: wellBehavedEcho_def)
  from pulse_measured_r2 [OF assms(1,2,4) wait rise hold fall] obtain s' w' where
    m: "measureDistance_r2 s w = Some (getMeasuredDistance s', s', w')"
    and st: "currentState s' = FinishedMeasure" and u: "usPerCm s' = usPerCm s"
    and d: "currentDuration s' = clockAt w (n + 3 + m) - clockAt w (n + 2)" by blast
  from st u nz have "getMeasuredDistance s' = Inr (currentDuration s' div scast (usPerCm s))"
    by (simp add: getMeasuredDistance_def convertCurrentDurationToDistance_def)
  with m st d unat_distance [OF assms(3), of "currentDuration s'"] show ?thesis
    by (auto simp add: pulseWidth_def)
qed

lemma measureDistance_r2_value:
  "measureDistance_r2 s w = Some (d, s', w') \<Longrightarrow> d = getMeasuredDistance s'"
  by (auto simp: measureDistance_r2_def split: option.splits)

lemma measureDistance_r1_value:
  assumes "measureDistance_r1 d0 s w = Some (Inr (dist, s', w'))"
  shows "getMeasuredDistance s' = Inr dist"
proof -
  from assms measureDistance_r1_iff obtain k where
    "async_measure_r1 k d0 s w = Some (Inr (dist, s', w'))" by blast
  then have "async_wait_r1 k (d0, startMeasure_r1 s w) = Some (Inr (dist, s', w'))"
    by (simp add: async_measure_r1_eq)
  then show ?thesis by (rule async_wait_r1_value)
qed

lemma awaitFinished_r2_idle:
  assumes "isAttached_flag s" and "currentState s = Idle"
  shows "awaitFinished_r2 (s, w) = Some (s, w\<lparr>read_cnt := Suc (read_cnt w)\<rparr>)"
proof -
  have "refreshState_r2 s w = (s, w\<lparr>read_cnt := Suc (read_cnt w)\<rparr>)"
    using assms(2) by (simp add: refreshState_r2_rest)
  from awaitFinished_r2_step [OF assms(1) this] assms(2) show ?thesis
    by (simp add: isMeasuring_def)
qed

lemma awaitFinished_r1_idle:
  assumes "isAttached_r1 s" and "currentState s = Idle"
  shows "\<exists>w'. awaitFinished_r1 (x, s, w) = Some (Inr (URM_INVALID_VALUE, s, w'))"
proof -
  obtain w' where "refreshState_r1 s w = (s, w')"
    using assms(2) by (simp add: refreshState_r1_rest)
  from awaitFinished_r1_step [OF assms(1) this, of x] assms(2) show ?thesis
    by (simp add: isMeasuring_def getMeasuredDistance_def)
qed

lemmas echo_defs = echo_r1_def echo_r2_def silent_r1_def silent_r2_def wellBehavedEcho_def
  pulseWidth_def echoActiveAt_def clockAt_def obs_defs hw_defs sim_world_def seq_of_def
  const_defs

lemma silent_run_r1:
  "\<exists>dist s' w'. measureDistance_r1 7 (demo_r1 Idle) silent_r1 = Some (Inr (dist, s', w')) \<and>
     currentState s' = Idle"
proof -
  obtain s1 w1 where st: "startMeasure_r1 (demo_r1 Idle) silent_r1 = (s1, w1)"
    by (cases "startMeasure_r1 (demo_r1 Idle) silent_r1")
  have "currentState (fst (startMeasure_r1 (demo_r1 Idle) silent_r1)) = Idle \<and>
        isAttached_r1 (fst (startMeasure_r1 (demo_r1 Idle) silent_r1))"
    by (simp add: demo_r1_eval startMeasure_r1_def refreshState_r1_def isAttached_r1_def
        time_defs echo_defs Let_def)
  with st have "currentState s1 = Idle" "isAttached_r1 s1" by simp_all
  from awaitFinished_r1_idle [OF this(2,1), of 7 w1] st this(1) show ?thesis
    by (auto simp add: measureDistance_r1_def)
qed

lemma silent_run_r2:
  "\<exists>dist s' w'. measureDistance_r2 (demo_r2 Idle) silent_r2 = Some (dist, s', w') \<and>
     currentState s' = Idle"
proof -
  obtain s1 w1 where st: "startMeasure_r2 (demo_r2 Idle) silent_r2 = (s1, w1)"
    by (cases "startMeasure_r2 (demo_r2 Idle) silent_r2")
  have "currentState (fst (startMeasure_r2 (demo_r2 Idle) silent_r2)) = Idle \<and>
        isAttached_flag (fst (startMeasure_r2 (demo_r2 Idle) silent_r2))"
    by (simp add: demo_r2_eval startMeasure_r2_def refreshState_r2_def isAttached_r2_def
        time_defs echo_defs Let_def)
  with st have "currentState s1 = Idle" "isAttached_flag s1" by simp_all
  from awaitFinished_r2_idle [OF this(2,1), of w1] st this(1) show ?thesis
    by (simp add: measureDistance_r2_def)
qed

lemma echo_run_r1:
  "map_option (map_sum id fst) (async_measure_r1 (Suc (Suc (Suc 0))) 7 (demo_r1 Idle) echo_r1)
     = Some (Inr 60)"
  by (simp add: async_measure_r1_def demo_r1_eval startMeasure_r1_def
      refreshState_r1_waiting refreshState_r1_measuring finishedMeasure_r1_def isAttached_r1_def isMeasuring_def getMeasuredDistance_def
      convertCurrentDurationToDistance_def getOppositeStateFor_def time_defs echo_defs Let_def)

lemma echo_run_r2:
  "map_option fst (async_measure_r2 (Suc (Suc (Suc 0))) (demo_r2 Idle) echo_r2) = Some (Inr 60)"
  by (simp add: async_measure_r2_def demo_r2_eval startMeasure_r2_def
      refreshState_r2_waiting refreshState_r2_measuring finishedMeasure_r2_def isAttached_r2_def isMeasuring_def getMeasuredDistance_def
      convertCurrentDurationToDistance_def getOppositeStateFor_def time_defs echo_defs Let_def)

text \<open>
  Claim C9. \<^verbatim>\<open>measureDistance()\<close> returns a result exactly when a caller of the asynchronous
  interface (start, then \<^verbatim>\<open>finishedMeasure()\<close> until it returns true, then the distance
  query) gets that result after some number of calls: the same distance, the same object
  and the same hardware history. Where no number of calls is enough, \<^verbatim>\<open>measureDistance()\<close>
  does not return. Revision 1 returns the value \<^verbatim>\<open>finishedMeasure\<close> stored through its
  pointer, which is the value of the distance query. On a well-behaved echo of measured
  duration \<open>D\<close>, started on an attached handle that is not measuring and has a positive
  \<open>usPerCm\<close>, it returns \<open>D\<close> divided by \<open>usPerCm\<close>, rounded down, in state \<open>FinishedMeasure\<close>.
  Whenever it returns in another state, it returns \<open>URM_INVALID_VALUE\<close>.
\<close>

theorem measureDistance_is_async_composition:
  "(measureDistance_r1 d0 s1 w1 = Some r1 \<longleftrightarrow> (\<exists>k. async_measure_r1 k d0 s1 w1 = Some r1)) \<and>
   (measureDistance_r2 s2 w2 = Some r2 \<longleftrightarrow> (\<exists>k. async_measure_r2 k s2 w2 = Some r2)) \<and>
   (isAttached_r1 s1 \<and> \<not> isMeasuring s1 \<and> 0 < sint (usPerCm s1) \<and>
    wellBehavedEcho s1 w1 0 n m \<longrightarrow>
      (\<exists>dist s' w'. measureDistance_r1 d0 s1 w1 = Some (Inr (dist, s', w')) \<and>
         currentState s' = FinishedMeasure \<and>
         unat dist = unat (pulseWidth w1 n m) div nat (sint (usPerCm s1)))) \<and>
   (isAttached_r2 s2 \<and> \<not> isMeasuring s2 \<and> 0 < sint (usPerCm s2) \<and>
    \<not> echoActiveAt s2 w2 0 \<and> wellBehavedEcho s2 w2 1 n m \<longrightarrow>
      (\<exists>dist s' w'. measureDistance_r2 s2 w2 = Some (Inr dist, s', w') \<and>
         currentState s' = FinishedMeasure \<and>
         unat dist = unat (pulseWidth w2 n m) div nat (sint (usPerCm s2)))) \<and>
   (measureDistance_r1 d0 s1 w1 = Some (Inr (dist1, s1', w1')) \<and>
    currentState s1' \<noteq> FinishedMeasure \<longrightarrow> dist1 = URM_INVALID_VALUE) \<and>
   (measureDistance_r2 s2 w2 = Some (dist2, s2', w2') \<and>
    currentState s2' \<noteq> FinishedMeasure \<longrightarrow> dist2 = Inr URM_INVALID_VALUE)"
proof (intro conjI impI)
  show "measureDistance_r1 d0 s1 w1 = Some r1 \<longleftrightarrow> (\<exists>k. async_measure_r1 k d0 s1 w1 = Some r1)"
    by (rule measureDistance_r1_iff)
  show "measureDistance_r2 s2 w2 = Some r2 \<longleftrightarrow> (\<exists>k. async_measure_r2 k s2 w2 = Some r2)"
    by (rule measureDistance_r2_iff)
next
  assume "isAttached_r1 s1 \<and> \<not> isMeasuring s1 \<and> 0 < sint (usPerCm s1) \<and>
    wellBehavedEcho s1 w1 0 n m"
  then show "\<exists>dist s' w'. measureDistance_r1 d0 s1 w1 = Some (Inr (dist, s', w')) \<and>
         currentState s' = FinishedMeasure \<and>
         unat dist = unat (pulseWidth w1 n m) div nat (sint (usPerCm s1))"
    using pulse_distance_r1 by blast
next
  assume "isAttached_r2 s2 \<and> \<not> isMeasuring s2 \<and> 0 < sint (usPerCm s2) \<and>
    \<not> echoActiveAt s2 w2 0 \<and> wellBehavedEcho s2 w2 1 n m"
  then show "\<exists>dist s' w'. measureDistance_r2 s2 w2 = Some (Inr dist, s', w') \<and>
         currentState s' = FinishedMeasure \<and>
         unat dist = unat (pulseWidth w2 n m) div nat (sint (usPerCm s2))"
    using pulse_distance_r2 by blast
next
  assume a: "measureDistance_r1 d0 s1 w1 = Some (Inr (dist1, s1', w1')) \<and>
    currentState s1' \<noteq> FinishedMeasure"
  then have "getMeasuredDistance s1' = Inr dist1" using measureDistance_r1_value by blast
  with a show "dist1 = URM_INVALID_VALUE" by (simp add: getMeasuredDistance_def)
next
  assume a: "measureDistance_r2 s2 w2 = Some (dist2, s2', w2') \<and>
    currentState s2' \<noteq> FinishedMeasure"
  then have "dist2 = getMeasuredDistance s2'" using measureDistance_r2_value by blast
  with a show "dist2 = Inr URM_INVALID_VALUE" by (simp add: getMeasuredDistance_def)
qed

theorem measureDistance_is_async_composition_witness:
  "isAttached_r1 (demo_r1 Idle) \<and> \<not> isMeasuring (demo_r1 Idle) \<and>
   0 < sint (usPerCm (demo_r1 Idle)) \<and>
   wellBehavedEcho (demo_r1 Idle) echo_r1 0 (Suc 0) (Suc 0) \<and>
   pulseWidth echo_r1 (Suc 0) (Suc 0) = 3000 \<and>
   (\<exists>dist s' w'. measureDistance_r1 7 (demo_r1 Idle) echo_r1 = Some (Inr (dist, s', w')) \<and>
      (\<exists>k. async_measure_r1 k 7 (demo_r1 Idle) echo_r1 = Some (Inr (dist, s', w'))) \<and>
      currentState s' = FinishedMeasure \<and> unat dist = 60) \<and>
   isAttached_r2 (demo_r2 Idle) \<and> \<not> isMeasuring (demo_r2 Idle) \<and>
   0 < sint (usPerCm (demo_r2 Idle)) \<and>
   \<not> echoActiveAt (demo_r2 Idle) echo_r2 0 \<and>
   wellBehavedEcho (demo_r2 Idle) echo_r2 1 (Suc 0) (Suc 0) \<and>
   pulseWidth echo_r2 (Suc 0) (Suc 0) = 3000 \<and>
   (\<exists>dist s' w'. measureDistance_r2 (demo_r2 Idle) echo_r2 = Some (Inr dist, s', w') \<and>
      (\<exists>k. async_measure_r2 k (demo_r2 Idle) echo_r2 = Some (Inr dist, s', w')) \<and>
      currentState s' = FinishedMeasure \<and> unat dist = 60) \<and>
   map_option (map_sum id fst) (measureDistance_r1 7 (demo_r1 Idle) echo_r1) = Some (Inr 60) \<and>
   map_option fst (measureDistance_r2 (demo_r2 Idle) echo_r2) = Some (Inr 60) \<and>
   (\<exists>s' w'. measureDistance_r1 7 (demo_r1 Idle) silent_r1 =
      Some (Inr (URM_INVALID_VALUE, s', w')) \<and> currentState s' \<noteq> FinishedMeasure) \<and>
   (\<exists>s' w'. measureDistance_r2 (demo_r2 Idle) silent_r2 =
      Some (Inr URM_INVALID_VALUE, s', w') \<and> currentState s' \<noteq> FinishedMeasure)"
proof -
  have h1: "isAttached_r1 (demo_r1 Idle) \<and> \<not> isMeasuring (demo_r1 Idle) \<and>
      0 < sint (usPerCm (demo_r1 Idle)) \<and>
      wellBehavedEcho (demo_r1 Idle) echo_r1 0 (Suc 0) (Suc 0)"
    by (simp add: demo_r1_eval isAttached_r1_def isMeasuring_def echo_defs)
  have h2: "isAttached_r2 (demo_r2 Idle) \<and> \<not> isMeasuring (demo_r2 Idle) \<and>
      0 < sint (usPerCm (demo_r2 Idle)) \<and>
      \<not> echoActiveAt (demo_r2 Idle) echo_r2 0 \<and>
      wellBehavedEcho (demo_r2 Idle) echo_r2 1 (Suc 0) (Suc 0)"
    by (simp add: demo_r2_eval isAttached_r2_def isMeasuring_def echo_defs)
  have p1: "pulseWidth echo_r1 (Suc 0) (Suc 0) = 3000" by (simp add: echo_defs)
  have p2: "pulseWidth echo_r2 (Suc 0) (Suc 0) = 3000" by (simp add: echo_defs)
  have u1: "nat (sint (usPerCm (demo_r1 Idle))) = 50" by (simp add: demo_r1_eval)
  have u2: "nat (sint (usPerCm (demo_r2 Idle))) = 50" by (simp add: demo_r2_eval)
  note pulse1 = measureDistance_is_async_composition
    [where ?d0.0 = 7 and ?s1.0 = "demo_r1 Idle" and ?w1.0 = echo_r1 and n = "Suc 0"
      and m = "Suc 0",
      THEN conjunct2, THEN conjunct2, THEN conjunct1, THEN mp, OF h1]
  note pulse2 = measureDistance_is_async_composition
    [where ?s2.0 = "demo_r2 Idle" and ?w2.0 = echo_r2 and n = "Suc 0" and m = "Suc 0",
      THEN conjunct2, THEN conjunct2, THEN conjunct2, THEN conjunct1, THEN mp, OF h2]
  from pulse1 obtain dist1 s1' w1' where
    r1: "measureDistance_r1 7 (demo_r1 Idle) echo_r1 = Some (Inr (dist1, s1', w1'))"
      "currentState s1' = FinishedMeasure"
    and d1: "unat dist1 = unat (pulseWidth echo_r1 (Suc 0) (Suc 0)) div
               nat (sint (usPerCm (demo_r1 Idle)))"
    by blast
  from pulse2 obtain dist2 s2' w2' where
    r2: "measureDistance_r2 (demo_r2 Idle) echo_r2 = Some (Inr dist2, s2', w2')"
      "currentState s2' = FinishedMeasure"
    and d2: "unat dist2 = unat (pulseWidth echo_r2 (Suc 0) (Suc 0)) div
               nat (sint (usPerCm (demo_r2 Idle)))"
    by blast
  from d1 p1 u1 have e1: "unat dist1 = 60" by simp
  from d2 p2 u2 have e2: "unat dist2 = 60" by simp
  from r1(1) have a1:
    "\<exists>k. async_measure_r1 k 7 (demo_r1 Idle) echo_r1 = Some (Inr (dist1, s1', w1'))"
    using measureDistance_is_async_composition
      [where ?d0.0 = 7 and ?s1.0 = "demo_r1 Idle" and ?w1.0 = echo_r1
        and ?r1.0 = "Inr (dist1, s1', w1')"] by blast
  from r2(1) have a2:
    "\<exists>k. async_measure_r2 k (demo_r2 Idle) echo_r2 = Some (Inr dist2, s2', w2')"
    using measureDistance_is_async_composition
      [where ?s2.0 = "demo_r2 Idle" and ?w2.0 = echo_r2 and ?r2.0 = "(Inr dist2, s2', w2')"]
    by blast
  from silent_run_r1 obtain dist3 s3 w3 where
    r3: "measureDistance_r1 7 (demo_r1 Idle) silent_r1 = Some (Inr (dist3, s3, w3))"
      "currentState s3 = Idle" by blast
  then have "dist3 = URM_INVALID_VALUE"
    using measureDistance_is_async_composition
      [where ?d0.0 = 7 and ?s1.0 = "demo_r1 Idle" and ?w1.0 = silent_r1
        and ?dist1.0 = dist3 and ?s1'.0 = s3 and ?w1'.0 = w3] by simp
  with r3 have f1: "\<exists>s' w'. measureDistance_r1 7 (demo_r1 Idle) silent_r1 =
      Some (Inr (URM_INVALID_VALUE, s', w')) \<and> currentState s' \<noteq> FinishedMeasure" by auto
  from silent_run_r2 obtain dist4 s4 w4 where
    r4: "measureDistance_r2 (demo_r2 Idle) silent_r2 = Some (dist4, s4, w4)"
      "currentState s4 = Idle" by blast
  then have "dist4 = Inr URM_INVALID_VALUE"
    using measureDistance_is_async_composition
      [where ?s2.0 = "demo_r2 Idle" and ?w2.0 = silent_r2
        and ?dist2.0 = dist4 and ?s2'.0 = s4 and ?w2'.0 = w4] by simp
  with r4 have f2: "\<exists>s' w'. measureDistance_r2 (demo_r2 Idle) silent_r2 =
      Some (Inr URM_INVALID_VALUE, s', w') \<and> currentState s' \<noteq> FinishedMeasure" by auto
  from echo_run_r1 obtain x1 where
    k1: "async_measure_r1 (Suc (Suc (Suc 0))) 7 (demo_r1 Idle) echo_r1 = Some x1"
    and v1: "map_sum id fst x1 = Inr 60"
    by (auto simp only: map_option_eq_Some)
  have "measureDistance_r1 7 (demo_r1 Idle) echo_r1 = Some x1"
    by (rule measureDistance_is_async_composition
        [where ?d0.0 = 7 and ?s1.0 = "demo_r1 Idle" and ?w1.0 = echo_r1 and ?r1.0 = x1,
          THEN conjunct1, THEN iffD2, OF exI, OF k1])
  with v1 have c1:
    "map_option (map_sum id fst) (measureDistance_r1 7 (demo_r1 Idle) echo_r1) = Some (Inr 60)"
    by simp
  from echo_run_r2 obtain x2 where
    k2: "async_measure_r2 (Suc (Suc (Suc 0))) (demo_r2 Idle) echo_r2 = Some x2"
    and v2: "fst x2 = Inr 60"
    by (auto simp only: map_option_eq_Some)
  have "measureDistance_r2 (demo_r2 Idle) echo_r2 = Some x2"
    by (rule measureDistance_is_async_composition
        [where ?s2.0 = "demo_r2 Idle" and ?w2.0 = echo_r2 and ?r2.0 = x2,
          THEN conjunct2, THEN conjunct1, THEN iffD2, OF exI, OF k2])
  with v2 have c2:
    "map_option fst (measureDistance_r2 (demo_r2 Idle) echo_r2) = Some (Inr 60)"
    by simp
  from h1 h2 p1 p2 r1 r2 e1 e2 a1 a2 c1 c2 f1 f2 show ?thesis by blast
qed

end
